theory Spec2Isabelle
  imports Complex_Main "HOL-Library.AList"
begin

chapter \<open>The model\<close>

section \<open>JavaScript values\<close>

text \<open>
  A request body, a provider payload and a response body are JSON values. Numbers are
  the rationals: a JSON number is a finite double, and the sources only compare numbers
  with constants and choose between them, which is exact on doubles. An object is the
  list of its own properties in insertion order, each name once; that the engine lists
  names that are array indices first is left out, since nothing reads the order. A
  string is the list of its characters.
\<close>

datatype jsval =
    JUndef
  | JNull
  | JBool bool
  | JNum rat
  | JStr string
  | JArr "jsval list"
  | JObj "(string \<times> jsval) list"

text \<open>The values that \<^verbatim>\<open>if (v)\<close>, \<^verbatim>\<open>!v\<close>, \<^verbatim>\<open>v || d\<close> and \<^verbatim>\<open>v && w\<close> take for true.\<close>

fun truthy :: "jsval \<Rightarrow> bool" where
  "truthy JUndef = False"
| "truthy JNull = False"
| "truthy (JBool b) = b"
| "truthy (JNum x) = (x \<noteq> 0)"
| "truthy (JStr s) = (s \<noteq> [])"
| "truthy (JArr xs) = True"
| "truthy (JObj kvs) = True"

definition or_else :: "jsval \<Rightarrow> jsval \<Rightarrow> jsval" where
  "or_else v d = (if truthy v then v else d)"

fun nullish :: "jsval \<Rightarrow> bool" where
  "nullish JUndef = True"
| "nullish JNull = True"
| "nullish v = False"

text \<open>\<^verbatim>\<open>typeof v === 'string'\<close>, \<^verbatim>\<open>typeof v === 'number'\<close>, \<^verbatim>\<open>typeof v === 'object'\<close>.\<close>

fun is_string :: "jsval \<Rightarrow> bool" where
  "is_string (JStr s) = True"
| "is_string v = False"

fun is_number :: "jsval \<Rightarrow> bool" where
  "is_number (JNum x) = True"
| "is_number v = False"

fun is_object :: "jsval \<Rightarrow> bool" where
  "is_object JNull = True"
| "is_object (JArr xs) = True"
| "is_object (JObj kvs) = True"
| "is_object v = False"

text \<open>Decimal digits of a natural number, as array indices and sizes are printed.\<close>

definition digit :: "nat \<Rightarrow> char" where
  "digit d = ''0123456789'' ! d"

function decimal :: "nat \<Rightarrow> string" where
  "decimal n = (if n < 10 then [digit n] else decimal (n div 10) @ [digit (n mod 10)])"
  by pat_completeness auto
termination
  by (relation "measure (\<lambda>n. n)") auto

declare decimal.simps [simp del]

text \<open>
  The own enumerable properties of a value, which is what an object spread
  \<^verbatim>\<open>{...v}\<close> copies: the properties of an object, the elements of an array under their
  indices, the characters of a string under theirs, and nothing for any other value.
\<close>

fun own_props :: "jsval \<Rightarrow> (string \<times> jsval) list" where
  "own_props (JObj kvs) = kvs"
| "own_props (JArr xs) = zip (map decimal [0..<length xs]) xs"
| "own_props (JStr s) = zip (map decimal [0..<length s]) (map (\<lambda>c. JStr [c]) s)"
| "own_props v = []"

text \<open>
  Reading a property \<^verbatim>\<open>v.k\<close> of a value that is neither \<^verbatim>\<open>undefined\<close> nor
  \<^verbatim>\<open>null\<close> (on those the read throws; every use below is guarded). Inherited
  properties other than \<^verbatim>\<open>length\<close> are left out: the sources read none of them from
  a request or a reply.
\<close>

definition get :: "jsval \<Rightarrow> string \<Rightarrow> jsval" where
  "get v k =
     (case map_of (own_props v) k of
        Some x \<Rightarrow> x
      | None \<Rightarrow>
          (case v of
             JArr xs \<Rightarrow> if k = ''length'' then JNum (of_nat (length xs)) else JUndef
           | JStr s \<Rightarrow> if k = ''length'' then JNum (of_nat (length s)) else JUndef
           | _ \<Rightarrow> JUndef))"

text \<open>Optional chaining \<^verbatim>\<open>v?.k\<close>.\<close>

definition get_opt :: "jsval \<Rightarrow> string \<Rightarrow> jsval" where
  "get_opt v k = (if nullish v then JUndef else get v k)"

text \<open>
  The object literal \<^verbatim>\<open>{ ...fields, ...v }\<close>: the properties of \<open>v\<close> are written over
  \<open>fields\<close> one after the other, a property already there keeping its place.
\<close>

definition spread :: "(string \<times> jsval) list \<Rightarrow> jsval \<Rightarrow> (string \<times> jsval) list" where
  "spread fields v = fold (\<lambda>(k, x). AList.update k x) (own_props v) fields"

text \<open>
  What is thrown: an \<^verbatim>\<open>Error\<close> made by the sources or by a collaborator, with its
  message, or the engine's \<^verbatim>\<open>TypeError\<close> for a read on \<^verbatim>\<open>undefined\<close> or \<^verbatim>\<open>null\<close>,
  tagged with the expression that was read.
\<close>

datatype exn = Error string | TypeError string

text \<open>
  The conversions of the engine that the sources reach but that no claim depends on are
  parameters of the model: the text of a \<^verbatim>\<open>TypeError\<close>, and the conversion to a string
  or to a number of values whose conversion is not one line of the language definition.
\<close>

datatype jsnumber = NaN | Fin rat | PosInf | NegInf

record engine =
  typeErrorMessage :: "string \<Rightarrow> string"
  toString_ext :: "jsval \<Rightarrow> string"
  toNumber_ext :: "jsval \<Rightarrow> jsnumber"

fun message_of :: "engine \<Rightarrow> exn \<Rightarrow> string" where
  "message_of eng (Error m) = m"
| "message_of eng (TypeError what) = typeErrorMessage eng what"

text \<open>\<^verbatim>\<open>`${v}`\<close>: the string conversion of a template literal.\<close>

fun ToString :: "engine \<Rightarrow> jsval \<Rightarrow> string" where
  "ToString eng JUndef = ''undefined''"
| "ToString eng JNull = ''null''"
| "ToString eng (JBool b) = (if b then ''true'' else ''false'')"
| "ToString eng (JStr s) = s"
| "ToString eng v = toString_ext eng v"

text \<open>The number conversion of the relational operators.\<close>

fun ToNumber :: "engine \<Rightarrow> jsval \<Rightarrow> jsnumber" where
  "ToNumber eng JUndef = NaN"
| "ToNumber eng JNull = Fin 0"
| "ToNumber eng (JBool b) = Fin (if b then 1 else 0)"
| "ToNumber eng (JNum x) = Fin x"
| "ToNumber eng v = toNumber_ext eng v"

text \<open>\<^verbatim>\<open>v < c\<close> and \<^verbatim>\<open>v > c\<close> against a numeric constant.\<close>

fun num_lt :: "jsnumber \<Rightarrow> rat \<Rightarrow> bool" where
  "num_lt (Fin x) c = (x < c)"
| "num_lt NegInf c = True"
| "num_lt n c = False"

fun num_gt :: "jsnumber \<Rightarrow> rat \<Rightarrow> bool" where
  "num_gt (Fin x) c = (c < x)"
| "num_gt PosInf c = True"
| "num_gt n c = False"

section \<open>Input validation\<close>

record validation =
  valid :: bool
  errors :: "string list"

text \<open>
  \<^verbatim>\<open>validateInput\<close>, the same text in api/speech-to-text.js and in the service account
  version of it.
\<close>

definition validateInput :: "jsval \<Rightarrow> jsval \<Rightarrow> validation" where
  "validateInput audioData config =
     (let errors =
            (if \<not> truthy audioData \<or> \<not> is_string audioData
             then [''audioData is required and must be a base64 string''] else [])
          @ (if \<not> truthy config \<or> \<not> is_object config
             then [''config is required and must be an object'']
             else
               (if \<not> truthy (get config ''languageCode'')
                then [''config.languageCode is required''] else [])
               @ (if \<not> truthy (get config ''encoding'')
                  then [''config.encoding is required''] else []))
      in \<lparr>valid = (length errors = 0), errors = errors\<rparr>)"

definition supportedEncodings :: "string list" where
  "supportedEncodings =
     [''MP3'', ''LINEAR16'', ''FLAC'', ''MULAW'', ''AMR'', ''AMR_WB'', ''OGG_OPUS'',
      ''SPEEX_WITH_HEADER_BYTE'', ''WEBM_OPUS'']"

text \<open>\<^verbatim>\<open>supportedEncodings.includes(v)\<close>: strict equality with one of the strings.\<close>

definition includes_encoding :: "jsval \<Rightarrow> bool" where
  "includes_encoding v = (case v of JStr s \<Rightarrow> s \<in> set supportedEncodings | _ \<Rightarrow> False)"

text \<open>\<^verbatim>\<open>validateChunkInput\<close> of api/process-audio-chunk.js.\<close>

definition validateChunkInput :: "engine \<Rightarrow> jsval \<Rightarrow> jsval \<Rightarrow> jsval \<Rightarrow> validation" where
  "validateChunkInput eng audioData chunkIndex config =
     (let errors =
            (if \<not> truthy audioData \<or> \<not> is_string audioData
             then [''audioData is required and must be a base64 string''] else [])
          @ (if chunkIndex = JUndef \<or> chunkIndex = JNull \<or> \<not> is_number chunkIndex
             then [''chunkIndex is required and must be a number''] else [])
          @ (if \<not> truthy config \<or> \<not> is_object config
             then [''config is required and must be an object'']
             else
               (if \<not> truthy (get config ''languageCode'')
                then [''config.languageCode is required''] else [])
               @ (if \<not> truthy (get config ''encoding'')
                  then [''config.encoding is required''] else [])
               @ (if truthy (get config ''encoding'')
                     \<and> \<not> includes_encoding (get config ''encoding'')
                  then [''Unsupported encoding: '' @ ToString eng (get config ''encoding'')]
                  else [])
               @ (if truthy (get config ''sampleRateHertz'')
                     \<and> (num_lt (ToNumber eng (get config ''sampleRateHertz'')) 8000
                        \<or> num_gt (ToNumber eng (get config ''sampleRateHertz'')) 48000)
                  then [''sampleRateHertz must be between 8000 and 48000''] else []))
      in \<lparr>valid = (length errors = 0), errors = errors\<rparr>)"

text \<open>An engine to run the model on concrete values; its answers are never asked for there.\<close>

definition sample_engine :: engine where
  "sample_engine = \<lparr>typeErrorMessage = (\<lambda>what. ''Cannot read properties of undefined''),
      toString_ext = (\<lambda>v. ''[object Object]''), toNumber_ext = (\<lambda>v. NaN)\<rparr>"






section \<open>Request builders\<close>

text \<open>
  \<^verbatim>\<open>buildSpeechRequest\<close>, the same text in api/speech-to-text.js and in the service
  account version of it. The literal ends with \<^verbatim>\<open>...config\<close>, so every property of
  the caller's config is written into the provider's config, over the defaults.
\<close>

definition diarization_2_6 :: "jsval \<Rightarrow> jsval" where
  "diarization_2_6 dc =
     JObj [(''enableSpeakerDiarization'', JBool True),
           (''minSpeakerCount'', or_else (get dc ''minSpeakerCount'') (JNum 2)),
           (''maxSpeakerCount'', or_else (get dc ''maxSpeakerCount'') (JNum 6))]"

definition buildSpeechRequest_defaults :: "jsval \<Rightarrow> (string \<times> jsval) list" where
  "buildSpeechRequest_defaults config =
     [(''encoding'', get config ''encoding''),
      (''sampleRateHertz'', or_else (get config ''sampleRateHertz'') (JNum 16000)),
      (''languageCode'', get config ''languageCode''),
      (''model'', JStr ''latest_long''),
      (''useEnhanced'', JBool True),
      (''enableAutomaticPunctuation'', JBool True),
      (''enableWordTimeOffsets'', JBool True),
      (''maxAlternatives'', JNum 1)]"

definition buildSpeechRequest :: "jsval \<Rightarrow> jsval \<Rightarrow> exn + jsval" where
  "buildSpeechRequest audioData config =
     (if nullish config then Inl (TypeError ''config.encoding'')
      else
        let requestConfig = spread (buildSpeechRequest_defaults config) config;
            requestConfig =
              (if truthy (get config ''diarizationConfig'')
               then AList.update ''diarizationConfig''
                      (diarization_2_6 (get config ''diarizationConfig'')) requestConfig
               else requestConfig)
        in Inr (JObj [(''config'', JObj requestConfig),
                      (''audio'', JObj [(''content'', audioData)])]))"

text \<open>
  \<^verbatim>\<open>buildChunkSpeechRequest\<close> of api/process-audio-chunk.js. Here each property of the
  provider's config is written by name.
\<close>

definition buildChunkSpeechRequest :: "jsval \<Rightarrow> jsval \<Rightarrow> exn + jsval" where
  "buildChunkSpeechRequest audioData config =
     (if nullish config then Inl (TypeError ''config.encoding'')
      else
        let requestConfig =
              [(''encoding'', get config ''encoding''),
               (''sampleRateHertz'', or_else (get config ''sampleRateHertz'') (JNum 16000)),
               (''languageCode'', get config ''languageCode''),
               (''model'', JStr ''latest_short''),
               (''useEnhanced'', JBool True),
               (''enableAutomaticPunctuation'', JBool True),
               (''enableWordTimeOffsets'', JBool True),
               (''enableWordConfidence'', JBool True),
               (''maxAlternatives'', JNum 1),
               (''profanityFilter'', JBool False)];
            requestConfig =
              (if truthy (get config ''audioChannelCount'')
               then AList.update ''audioChannelCount'' (get config ''audioChannelCount'')
                      requestConfig
               else requestConfig);
            requestConfig =
              (if truthy (get config ''enableSeparateRecognitionPerChannel'')
               then AList.update ''enableSeparateRecognitionPerChannel''
                      (get config ''enableSeparateRecognitionPerChannel'') requestConfig
               else requestConfig);
            requestConfig =
              (if truthy (get config ''enableDiarization'')
                  \<and> get config ''enableDiarization'' = JBool True
               then AList.update ''diarizationConfig''
                      (JObj [(''enableSpeakerDiarization'', JBool True),
                             (''minSpeakerCount'', JNum 1),
                             (''maxSpeakerCount'', JNum 2)]) requestConfig
               else requestConfig)
        in Inr (JObj [(''config'', JObj requestConfig),
                      (''audio'', JObj [(''content'', audioData)])]))"

text \<open>The names of the defaults that \<^verbatim>\<open>buildSpeechRequest\<close> writes before the spread.\<close>

definition default_fields :: "string list" where
  "default_fields =
     [''encoding'', ''sampleRateHertz'', ''languageCode'', ''model'', ''useEnhanced'',
      ''enableAutomaticPunctuation'', ''enableWordTimeOffsets'', ''maxAlternatives'']"

text \<open>
  A config as a caller can send it: valid for \<^verbatim>\<open>validateInput\<close>, with a model of the
  caller's choice and with the provider's \<^verbatim>\<open>adaptation\<close> field, which is no field of
  a RecognitionConfig.
\<close>

definition injecting_config :: jsval where
  "injecting_config =
     JObj [(''encoding'', JStr ''LINEAR16''),
           (''languageCode'', JStr ''en-US''),
           (''model'', JStr ''phone_call''),
           (''adaptation'',
            JObj [(''phraseSetReferences'', JArr [JStr ''projects/p/phraseSets/s''])])]"

text \<open>The provider's config inside a built request, and the names of its fields.\<close>

definition payload_config :: "jsval \<Rightarrow> jsval" where
  "payload_config request = get request ''config''"

definition field_names :: "jsval \<Rightarrow> string set" where
  "field_names v = fst ` set (own_props v)"

text \<open>
  The fields of a RecognitionConfig as section 3 of the specification lists them
  (encoding, sample rate, language code, diarization, model hint, and the flags for
  punctuation, word timing and word confidence), with the two further defaults the
  builders write. This is the widest allow-list the specification supports.
\<close>

definition documented_config_fields :: "string list" where
  "documented_config_fields =
     [''encoding'', ''sampleRateHertz'', ''languageCode'', ''diarizationConfig'', ''model'',
      ''enableAutomaticPunctuation'', ''enableWordTimeOffsets'', ''enableWordConfidence'',
      ''useEnhanced'', ''maxAlternatives'']"

section \<open>Operation pollers\<close>

text \<open>
  \<^verbatim>\<open>pollLongRunningOperation\<close> (api/speech-to-text.js) and \<^verbatim>\<open>pollOperation\<close>
  (api/process-large-audio.js) are the same loop. They differ in three places only: the
  default of \<^verbatim>\<open>maxAttempts\<close> (120 and 60), the message of the error thrown after the
  loop, and the progress line that only the first one prints.

  What one \<^verbatim>\<open>fetch\<close> of the operation followed by \<^verbatim>\<open>response.json()\<close> gives is
  an input of the model: either the promise rejects (\<open>Throws\<close>, with the error's message),
  or it yields the operation's JSON, of which the loop reads \<^verbatim>\<open>done\<close>,
  \<^verbatim>\<open>error.message\<close>, \<^verbatim>\<open>metadata.progressPercent\<close> and \<^verbatim>\<open>response\<close>.

  Neither loop reads \<^verbatim>\<open>response.ok\<close> or \<^verbatim>\<open>response.status\<close>, and \<^verbatim>\<open>fetch\<close>
  resolves for a reply of any status. So the status of the reply is no part of what the
  loop sees: a reply with an error status and a JSON body is a \<open>Data\<close> like any other,
  and one whose body is not JSON is a \<open>Throws\<close>, with the message of the parse error.
\<close>

record 'r operation =
  op_done :: bool
  op_error :: "string option"
  op_progress :: "rat option"
  op_response :: 'r

datatype 'r poll_reply = Throws string | Data "'r operation"

text \<open>What the poller does to the outside, in order: a fetch, a timer, a console line.\<close>

datatype event = Fetch | Sleep nat | LogProgress rat

text \<open>
  The body of the \<^verbatim>\<open>try\<close> block of one iteration. \<open>Inl m\<close>: an error with message
  \<open>m\<close> is thrown inside the block (by the fetch, or by the loop itself for a finished
  operation that carries an error); \<open>Inr (Some r)\<close>: the function returns \<open>r\<close>;
  \<open>Inr None\<close>: the block ends after its 5000 ms timer and the loop goes on.
\<close>

definition poll_try :: "bool \<Rightarrow> 'r poll_reply \<Rightarrow> event list \<times> (string + 'r option)" where
  "poll_try log_progress reply =
     (case reply of
        Throws m \<Rightarrow> ([Fetch], Inl m)
      | Data d \<Rightarrow>
          if op_done d then
            (case op_error d of
               Some m \<Rightarrow> ([Fetch], Inl (''Operation error: '' @ m))
             | None \<Rightarrow> ([Fetch], Inr (Some (op_response d))))
          else
            ([Fetch]
               @ (case op_progress d of
                    Some p \<Rightarrow> if log_progress \<and> p \<noteq> 0 then [LogProgress p] else []
                  | None \<Rightarrow> [])
               @ [Sleep 5000],
             Inr None))"

text \<open>
  The \<^verbatim>\<open>for\<close> loop from \<open>attempt\<close> on, with the \<^verbatim>\<open>catch\<close> block: an error thrown
  in the last iteration is rethrown, any earlier one is followed by a 10000 ms timer and
  the next iteration. After the loop the timeout error is thrown.
\<close>

function poll_loop ::
  "string \<Rightarrow> bool \<Rightarrow> nat \<Rightarrow> nat \<Rightarrow> (nat \<Rightarrow> 'r poll_reply) \<Rightarrow> event list \<times> (string + 'r)" where
  "poll_loop timeout_message log_progress maxAttempts attempt fetch =
     (if attempt < maxAttempts then
        (case poll_try log_progress (fetch attempt) of
           (ev, Inr (Some r)) \<Rightarrow> (ev, Inr r)
         | (ev, Inr None) \<Rightarrow>
             apfst ((@) ev)
               (poll_loop timeout_message log_progress maxAttempts (Suc attempt) fetch)
         | (ev, Inl m) \<Rightarrow>
             if attempt = maxAttempts - 1 then (ev, Inl m)
             else
               apfst ((@) (ev @ [Sleep 10000]))
                 (poll_loop timeout_message log_progress maxAttempts (Suc attempt) fetch))
      else ([], Inl timeout_message))"
  by pat_completeness auto
termination
  by (relation "measure (\<lambda>(t, l, maxAttempts, attempt, f). maxAttempts - attempt)") auto

declare poll_loop.simps [simp del]

definition pollLongRunningOperation ::
  "(nat \<Rightarrow> 'r poll_reply) \<Rightarrow> nat \<Rightarrow> event list \<times> (string + 'r)" where
  "pollLongRunningOperation fetch maxAttempts =
     poll_loop ''Long running operation timeout (10 minutes)'' True maxAttempts 0 fetch"

definition pollOperation ::
  "(nat \<Rightarrow> 'r poll_reply) \<Rightarrow> nat \<Rightarrow> event list \<times> (string + 'r)" where
  "pollOperation fetch maxAttempts = poll_loop ''Operation timeout'' False maxAttempts 0 fetch"

text \<open>The defaults of the parameter \<^verbatim>\<open>maxAttempts\<close>; no caller passes another value.\<close>

definition pollLongRunningOperation_maxAttempts :: nat where
  "pollLongRunningOperation_maxAttempts = 120"

definition pollOperation_maxAttempts :: nat where
  "pollOperation_maxAttempts = 60"

text \<open>Reading a run: the timers it set, in milliseconds, and the fetches it made.\<close>

fun sleeps :: "event list \<Rightarrow> nat list" where
  "sleeps [] = []"
| "sleeps (Sleep n # es) = n # sleeps es"
| "sleeps (e # es) = sleeps es"

fun fetches :: "event list \<Rightarrow> nat" where
  "fetches [] = 0"
| "fetches (Fetch # es) = Suc (fetches es)"
| "fetches (e # es) = fetches es"

text \<open>A reply that ends the poll with a result: the operation is done and carries no error.\<close>

definition completes :: "'r poll_reply \<Rightarrow> bool" where
  "completes reply = (case reply of Throws m \<Rightarrow> False | Data d \<Rightarrow> op_done d \<and> op_error d = None)"

text \<open>A reply that reports the operation as still running.\<close>

definition running :: "'r poll_reply \<Rightarrow> bool" where
  "running reply = (case reply of Throws m \<Rightarrow> False | Data d \<Rightarrow> \<not> op_done d)"

text \<open>
  What one iteration that does not return leaves behind: the events of its \<^verbatim>\<open>try\<close>
  block, followed by the 10000 ms timer of the \<^verbatim>\<open>catch\<close> block when an error was thrown.
\<close>

definition retry_events :: "bool \<Rightarrow> 'r poll_reply \<Rightarrow> event list" where
  "retry_events log_progress reply =
     fst (poll_try log_progress reply)
       @ (case snd (poll_try log_progress reply) of Inl m \<Rightarrow> [Sleep 10000] | Inr x \<Rightarrow> [])"

section \<open>Requests, responses and collaborators\<close>

text \<open>
  A handler receives the method and the parsed body of a request and answers with one
  status and one JSON body (\<open>JUndef\<close> for \<^verbatim>\<open>res.status(200).end()\<close>). The response
  headers are not part of the model: the handlers set them first, from the request's
  origin alone. Console output is not part of it either, except in the cleanup code
  below, where a claim speaks of it.
\<close>

record request =
  req_method :: string
  req_body :: jsval

record response =
  status :: nat
  body :: jsval

text \<open>The process environment the handlers read.\<close>

record env =
  GOOGLE_SERVICE_ACCOUNT_KEY :: "string option"
  GOOGLE_PROJECT_ID :: "string option"
  GOOGLE_STORAGE_BUCKET :: "string option"
  NODE_ENV :: "string option"

text \<open>\<^verbatim>\<open>!process.env.X\<close>: the variable is not set, or set to the empty string.\<close>

definition unset :: "string option \<Rightarrow> bool" where
  "unset v = (case v of None \<Rightarrow> True | Some s \<Rightarrow> s = [])"

text \<open>
  The recognition provider's reply body, typed as the provider documents it: a list of
  results, each with its alternatives, the first of which carries the transcript and the
  confidence; the billed time; or an error with message and code. Fields the handlers
  never read travel in the \<open>more\<close> lists.
\<close>

record alternative =
  alt_transcript :: string
  alt_confidence :: "rat option"
  alt_more :: "(string \<times> jsval) list"

record recognition_result =
  res_alternatives :: "alternative list"
  res_more :: "(string \<times> jsval) list"

record api_error =
  err_message :: "string option"
  err_code :: jsval

record speech_data =
  sd_results :: "recognition_result list option"
  sd_totalBilledTime :: jsval
  sd_error :: "api_error option"

definition alternative_json :: "alternative \<Rightarrow> jsval" where
  "alternative_json a =
     JObj ([(''transcript'', JStr (alt_transcript a))]
           @ (case alt_confidence a of Some c \<Rightarrow> [(''confidence'', JNum c)] | None \<Rightarrow> [])
           @ alt_more a)"

definition result_json :: "recognition_result \<Rightarrow> jsval" where
  "result_json r =
     JObj ((''alternatives'', JArr (map alternative_json (res_alternatives r))) # res_more r)"

definition results_json :: "recognition_result list option \<Rightarrow> jsval" where
  "results_json rs = (case rs of None \<Rightarrow> JUndef | Some xs \<Rightarrow> JArr (map result_json xs))"

definition error_json :: "api_error \<Rightarrow> jsval" where
  "error_json e =
     JObj ((case err_message e of Some m \<Rightarrow> [(''message'', JStr m)] | None \<Rightarrow> [])
           @ (if err_code e = JUndef then [] else [(''code'', err_code e)]))"

definition speech_data_json :: "speech_data \<Rightarrow> jsval" where
  "speech_data_json d =
     JObj ((case sd_results d of
              Some xs \<Rightarrow> [(''results'', JArr (map result_json xs))] | None \<Rightarrow> [])
           @ (if sd_totalBilledTime d = JUndef then []
              else [(''totalBilledTime'', sd_totalBilledTime d)])
           @ (case sd_error d of Some e \<Rightarrow> [(''error'', error_json e)] | None \<Rightarrow> []))"

text \<open>\<^verbatim>\<open>data.error?.message\<close> and \<^verbatim>\<open>data.error?.code\<close>.\<close>

definition error_message :: "speech_data \<Rightarrow> string option" where
  "error_message d = (case sd_error d of None \<Rightarrow> None | Some e \<Rightarrow> err_message e)"

definition error_code :: "speech_data \<Rightarrow> jsval" where
  "error_code d = (case sd_error d of None \<Rightarrow> JUndef | Some e \<Rightarrow> err_code e)"

text \<open>\<^verbatim>\<open>m || 'Unknown error'\<close> and \<^verbatim>\<open>`${m}`\<close> for an optional message.\<close>

definition message_or_unknown :: "string option \<Rightarrow> string" where
  "message_or_unknown m =
     (case m of None \<Rightarrow> ''Unknown error'' | Some s \<Rightarrow> if s = [] then ''Unknown error'' else s)"

definition message_text :: "string option \<Rightarrow> string" where
  "message_text m = (case m of None \<Rightarrow> ''undefined'' | Some s \<Rightarrow> s)"

text \<open>What a \<^verbatim>\<open>fetch\<close> of the provider followed by \<^verbatim>\<open>response.json()\<close> gives.\<close>

record speech_reply =
  sr_ok :: bool
  sr_status :: nat
  sr_data :: speech_data

record operation_start =
  os_ok :: bool
  os_error_message :: "string option"
  os_name :: jsval

text \<open>
  The calls a handler makes to its collaborators, in order: the credential provider, the
  recognition provider (with the bearer token or API key, and the request body), the
  operation endpoint from inside a poller, Google Drive (with the token and the file id)
  and object storage (with the bucket and the object name).
\<close>

datatype call =
    GetClient
  | GetAccessToken
  | Recognize string jsval
  | LongRunningRecognize string jsval
  | Poll event
  | StorageDelete string jsval
  | DriveDelete string jsval
  | DriveGet string jsval
  | DriveDownload string jsval
  | StorageSave string string

text \<open>
  How the collaborators answer is an input of the model. A call that rejects gives the
  message of its error (\<open>Inl\<close>, or \<open>Some\<close> where nothing is returned). The credential
  provider is asked by occurrence: \<open>getClient w n\<close> answers the \<open>n\<close>-th call of one
  request. \<open>decodeKey\<close> is \<^verbatim>\<open>JSON.parse(Buffer.from(key, 'base64').toString('utf-8'))\<close>,
  \<open>generateRequestId\<close> the string that \<^verbatim>\<open>Date.now()\<close> and \<^verbatim>\<open>Math.random()\<close> give,
  \<open>now\<close> is \<^verbatim>\<open>Date.now()\<close>. The storage and Drive deletions are asked by bucket or
  token, position in the list of names, and name.
  \<open>extractWordDetails\<close> stands for the function of that name in
  api/process-audio-chunk.js, whose arithmetic is floating point and whose result no
  claim reads.
\<close>

record world =
  decodeKey :: "string \<Rightarrow> string + jsval"
  getClient :: "nat \<Rightarrow> string option"
  getAccessToken :: "nat \<Rightarrow> string + string"
  recognize :: "string \<Rightarrow> jsval \<Rightarrow> string + speech_reply"
  longRunningRecognize :: "string \<Rightarrow> jsval \<Rightarrow> string + operation_start"
  getOperation :: "jsval \<Rightarrow> nat \<Rightarrow> jsval poll_reply"
  storageDelete :: "string \<Rightarrow> nat \<Rightarrow> jsval \<Rightarrow> string option"
  driveDelete :: "string \<Rightarrow> nat \<Rightarrow> jsval \<Rightarrow> string option"
  driveGet :: "string \<Rightarrow> jsval \<Rightarrow> string + jsval"
  driveDownload :: "string \<Rightarrow> jsval \<Rightarrow> string option"
  storageSave :: "string \<Rightarrow> string \<Rightarrow> string option"
  now :: nat
  generateRequestId :: string
  extractWordDetails :: "recognition_result list option \<Rightarrow> jsval"

text \<open>
  A computation of a handler: the calls made so far, and either what was thrown or a
  value. \<open>and_then\<close> runs the rest after a value and stops at a throw.
\<close>

type_synonym 'a run = "call list \<times> (exn + 'a)"

definition and_then :: "'a run \<Rightarrow> ('a \<Rightarrow> 'b run) \<Rightarrow> 'b run" where
  "and_then m f =
     (case m of
        (calls, Inl e) \<Rightarrow> (calls, Inl e)
      | (calls, Inr x) \<Rightarrow> apfst ((@) calls) (f x))"

definition throw :: "exn \<Rightarrow> 'a run" where
  "throw e = ([], Inl e)"

definition return :: "'a \<Rightarrow> 'a run" where
  "return x = ([], Inr x)"

text \<open>One call to a collaborator, with its answer.\<close>

definition calling :: "call \<Rightarrow> string + 'a \<Rightarrow> 'a run" where
  "calling c answer = ([c], case answer of Inl m \<Rightarrow> Inl (Error m) | Inr x \<Rightarrow> Inr x)"

definition rejects_or_unit :: "string option \<Rightarrow> string + unit" where
  "rejects_or_unit a = (case a of Some m \<Rightarrow> Inl m | None \<Rightarrow> Inr ())"

text \<open>\<^verbatim>\<open>s.includes(t)\<close>.\<close>

fun str_includes :: "string \<Rightarrow> string \<Rightarrow> bool" where
  "str_includes [] t = (t = [])"
| "str_includes (c # s) t = (take (length t) (c # s) = t \<or> str_includes s t)"

text \<open>
  The two Japanese literals of the sources, as the bytes of their UTF-8 encoding:
  \<^verbatim>\<open>'Google Cloud...'\<close> followed by the words for "settings" and for "are invalid".
\<close>

definition google_cloud_settings :: string where
  "google_cloud_settings =
     ''Google Cloud'' @ [CHR 0xE8, CHR 0xA8, CHR 0xAD, CHR 0xE5, CHR 0xAE, CHR 0x9A]"

definition settings_invalid_message :: string where
  "settings_invalid_message =
     google_cloud_settings
       @ [CHR 0xE3, CHR 0x81, CHR 0x8C, CHR 0xE4, CHR 0xB8, CHR 0x8D, CHR 0xE6, CHR 0xAD,
          CHR 0xA3, CHR 0xE3, CHR 0x81, CHR 0xA7, CHR 0xE3, CHR 0x81, CHR 0x99]"

text \<open>
  The size estimate \<^verbatim>\<open>(audioData.length * 3) / 4 / 1024 / 1024\<close>, in megabytes. On
  doubles the product is exact below \<open>2 ^ 53\<close> and each division is by a power of two, so
  the estimate is this rational exactly. It is only computed after validation has found
  \<^verbatim>\<open>audioData\<close> to be a string.
\<close>

definition string_length :: "jsval \<Rightarrow> nat" where
  "string_length v = (case v of JStr s \<Rightarrow> length s | _ \<Rightarrow> 0)"

definition audioSizeInMB :: "jsval \<Rightarrow> rat" where
  "audioSizeInMB audioData = of_nat (string_length audioData * 3) / 4 / 1024 / 1024"

text \<open>
  \<^verbatim>\<open>x.toFixed(2)\<close> for a size: the nearest multiple of one hundredth, the larger one
  on a tie, written with two decimals.
\<close>

definition toFixed2 :: "rat \<Rightarrow> string" where
  "toFixed2 x =
     (let n = nat \<lfloor>x * 100 + 1 / 2\<rfloor>
      in decimal (n div 100) @ ''.'' @ [digit (n mod 100 div 10), digit (n mod 10)])"

definition currentSize :: "jsval \<Rightarrow> jsval" where
  "currentSize audioData = JStr (toFixed2 (audioSizeInMB audioData) @ ''MB'')"

section \<open>api/speech-to-text.js, the version for large files\<close>

text \<open>The \<^verbatim>\<open>catch\<close> block of the three handlers that authenticate with a service account.\<close>

definition server_error_response :: "engine \<Rightarrow> env \<Rightarrow> world \<Rightarrow> exn \<Rightarrow> response" where
  "server_error_response eng env w e =
     (if str_includes (message_of eng e) google_cloud_settings then
        \<lparr>status = 500,
         body = JObj [(''error'', JStr ''Server configuration error''),
                      (''message'', JStr ''Google Cloud settings are invalid'')]\<rparr>
      else if str_includes (message_of eng e) ''Authentication'' then
        \<lparr>status = 401,
         body = JObj [(''error'', JStr ''Authentication failed''),
                      (''message'', JStr ''Failed to authenticate with Google Cloud'')]\<rparr>
      else
        \<lparr>status = 500,
         body = JObj [(''error'', JStr ''Internal server error''),
                      (''message'',
                       JStr (if NODE_ENV env = Some ''development'' then message_of eng e
                             else ''An unexpected error occurred'')),
                      (''requestId'', JStr (generateRequestId w))]\<rparr>)"

text \<open>
  The first statements of those handlers: the environment is checked, the key decoded,
  and the credential provider asked for a client and for a token.
\<close>

definition check_environment :: "env \<Rightarrow> unit run" where
  "check_environment env =
     (if unset (GOOGLE_SERVICE_ACCOUNT_KEY env) \<or> unset (GOOGLE_PROJECT_ID env)
      then throw (Error settings_invalid_message) else return ())"

definition decode_key :: "env \<Rightarrow> world \<Rightarrow> jsval run" where
  "decode_key env w =
     (case GOOGLE_SERVICE_ACCOUNT_KEY env of
        None \<Rightarrow> throw (TypeError ''Buffer.from(undefined)'')
      | Some k \<Rightarrow>
          (case decodeKey w k of Inl m \<Rightarrow> throw (Error m) | Inr info \<Rightarrow> return info))"

definition authenticate :: "world \<Rightarrow> nat \<Rightarrow> string run" where
  "authenticate w n =
     and_then (calling GetClient (rejects_or_unit (getClient w n))) (\<lambda>authClient.
       calling GetAccessToken (getAccessToken w n))"

text \<open>Destructuring \<^verbatim>\<open>const { ... } = v\<close> throws on \<^verbatim>\<open>undefined\<close> and \<^verbatim>\<open>null\<close>.\<close>

definition destructure :: "string \<Rightarrow> jsval \<Rightarrow> unit run" where
  "destructure what v = (if nullish v then throw (TypeError what) else return ())"

text \<open>\<^verbatim>\<open>processLargeFileViaCloudStorage\<close>.\<close>

definition long_running_request :: "jsval \<Rightarrow> jsval \<Rightarrow> jsval" where
  "long_running_request audioUri config =
     JObj [(''config'',
            JObj ([(''encoding'', or_else (get config ''encoding'') (JStr ''MP3'')),
                   (''sampleRateHertz'', or_else (get config ''sampleRateHertz'') (JNum 16000)),
                   (''languageCode'', or_else (get config ''languageCode'') (JStr ''ja-JP'')),
                   (''model'', JStr ''latest_long''),
                   (''useEnhanced'', JBool True),
                   (''enableAutomaticPunctuation'', JBool True),
                   (''enableWordTimeOffsets'', JBool True),
                   (''maxAlternatives'', JNum 1)]
                  @ (if truthy (get config ''diarizationConfig'')
                     then [(''diarizationConfig'',
                            diarization_2_6 (get config ''diarizationConfig''))]
                     else []))),
           (''audio'', JObj [(''uri'', audioUri)])]"

definition polling :: "event list \<times> (string + jsval) \<Rightarrow> jsval run" where
  "polling p = (map Poll (fst p), case snd p of Inl m \<Rightarrow> Inl (Error m) | Inr r \<Rightarrow> Inr r)"

definition processLargeFileViaCloudStorage_try :: "world \<Rightarrow> jsval \<Rightarrow> response run" where
  "processLargeFileViaCloudStorage_try w requestBody =
     and_then (destructure ''requestBody'' requestBody) (\<lambda>u.
     and_then (authenticate w 1) (\<lambda>token.
     and_then (destructure ''config.encoding'' (get requestBody ''config'')) (\<lambda>u.
     let speechRequest =
           long_running_request (get requestBody ''audioUri'') (get requestBody ''config'')
     in
     and_then (calling (LongRunningRecognize token speechRequest)
                 (longRunningRecognize w token speechRequest)) (\<lambda>operationData.
     and_then (if \<not> os_ok operationData
               then throw (Error (''Speech API Error: ''
                                    @ message_text (os_error_message operationData)))
               else return ()) (\<lambda>u.
     and_then (polling (pollLongRunningOperation (getOperation w (os_name operationData))
                          pollLongRunningOperation_maxAttempts)) (\<lambda>result.
     and_then (destructure ''result.results'' result) (\<lambda>u.
     return
       \<lparr>status = 200,
        body = JObj [(''success'', JBool True),
                     (''results'', or_else (get result ''results'') (JArr [])),
                     (''operationName'', os_name operationData),
                     (''processingMode'', JStr ''cloud_storage''),
                     (''requestId'', JStr (generateRequestId w))]\<rparr>)))))))"

definition processLargeFileViaCloudStorage :: "engine \<Rightarrow> world \<Rightarrow> jsval \<Rightarrow> response run" where
  "processLargeFileViaCloudStorage eng w requestBody =
     (case processLargeFileViaCloudStorage_try w requestBody of
        (calls, Inl e) \<Rightarrow>
          (calls, Inl (Error (''Large file processing failed: '' @ message_of eng e)))
      | (calls, Inr r) \<Rightarrow> (calls, Inr r))"

text \<open>
  \<^verbatim>\<open>results.map(result => result.alternatives[0])\<close>: the first alternative of every
  result; a result without one makes the read of its transcript throw.
\<close>

fun top_alternatives :: "recognition_result list \<Rightarrow> exn + alternative list" where
  "top_alternatives [] = Inr []"
| "top_alternatives (r # rs) =
     (case res_alternatives r of
        [] \<Rightarrow> Inl (TypeError ''result.alternatives[0].transcript'')
      | a # rest \<Rightarrow>
          (case top_alternatives rs of Inl e \<Rightarrow> Inl e | Inr tops \<Rightarrow> Inr (a # tops)))"

text \<open>\<^verbatim>\<open>strings.join(' ')\<close>.\<close>

fun join_space :: "string list \<Rightarrow> string" where
  "join_space [] = []"
| "join_space [s] = s"
| "join_space (s # t # ts) = s @ '' '' @ join_space (t # ts)"

text \<open>
  The transcript of a chunk, in both chunk paths: the transcripts of the first
  alternatives joined by a space, and the empty string when there are no results.
\<close>

definition chunk_transcript :: "recognition_result list option \<Rightarrow> exn + string" where
  "chunk_transcript results =
     (case results of
        None \<Rightarrow> Inr []
      | Some rs \<Rightarrow>
          if length rs > 0
          then (case top_alternatives rs of
                  Inl e \<Rightarrow> Inl e
                | Inr tops \<Rightarrow> Inr (join_space (map alt_transcript tops)))
          else Inr [])"

definition optional_number :: "rat option \<Rightarrow> jsval" where
  "optional_number x = (case x of None \<Rightarrow> JUndef | Some c \<Rightarrow> JNum c)"

text \<open>
  The confidence \<^verbatim>\<open>processAudioChunk\<close> reports:
  \<^verbatim>\<open>data.results && data.results[0] ? data.results[0].alternatives[0].confidence : 0\<close>.
\<close>

definition first_result_confidence :: "recognition_result list option \<Rightarrow> exn + jsval" where
  "first_result_confidence results =
     (case results of
        None \<Rightarrow> Inr (JNum 0)
      | Some [] \<Rightarrow> Inr (JNum 0)
      | Some (r # rs) \<Rightarrow>
          (case res_alternatives r of
             [] \<Rightarrow> Inl (TypeError ''data.results[0].alternatives[0].confidence'')
           | a # rest \<Rightarrow> Inr (optional_number (alt_confidence a))))"

definition raising :: "exn + 'a \<Rightarrow> 'a run" where
  "raising r = ([], r)"

text \<open>\<^verbatim>\<open>processAudioChunk\<close>: the request is written in place, with no builder.\<close>

definition inline_chunk_request :: "jsval \<Rightarrow> jsval \<Rightarrow> jsval" where
  "inline_chunk_request audioData config =
     JObj [(''config'',
            JObj [(''encoding'', or_else (get config ''encoding'') (JStr ''MP3'')),
                  (''sampleRateHertz'', or_else (get config ''sampleRateHertz'') (JNum 16000)),
                  (''languageCode'', or_else (get config ''languageCode'') (JStr ''ja-JP'')),
                  (''model'', JStr ''latest_short''),
                  (''enableAutomaticPunctuation'', JBool True)]),
           (''audio'', JObj [(''content'', audioData)])]"

definition processAudioChunk_try :: "world \<Rightarrow> jsval \<Rightarrow> string \<Rightarrow> response run" where
  "processAudioChunk_try w requestBody accessToken =
     and_then (destructure ''requestBody'' requestBody) (\<lambda>u.
     and_then (destructure ''config.encoding'' (get requestBody ''config'')) (\<lambda>u.
     let speechRequest =
           inline_chunk_request (get requestBody ''audioData'') (get requestBody ''config'')
     in
     and_then (calling (Recognize accessToken speechRequest)
                 (recognize w accessToken speechRequest)) (\<lambda>reply.
     and_then (if \<not> sr_ok reply
               then throw (Error (''Speech API Error: ''
                                    @ message_text (error_message (sr_data reply))))
               else return ()) (\<lambda>u.
     and_then (raising (chunk_transcript (sd_results (sr_data reply)))) (\<lambda>transcript.
     and_then (raising (first_result_confidence (sd_results (sr_data reply)))) (\<lambda>confidence.
     return
       \<lparr>status = 200,
        body = JObj [(''success'', JBool True),
                     (''transcript'', JStr transcript),
                     (''chunkIndex'', get requestBody ''chunkIndex''),
                     (''startTime'', get requestBody ''startTime''),
                     (''processingMode'', JStr ''chunk''),
                     (''confidence'', confidence)]\<rparr>))))))"

definition processAudioChunk :: "engine \<Rightarrow> world \<Rightarrow> jsval \<Rightarrow> string \<Rightarrow> response run" where
  "processAudioChunk eng w requestBody accessToken =
     (case processAudioChunk_try w requestBody accessToken of
        (calls, Inr r) \<Rightarrow> (calls, Inr r)
      | (calls, Inl e) \<Rightarrow>
          if nullish requestBody then (calls, Inl (TypeError ''requestBody.chunkIndex''))
          else
            (calls,
             Inr \<lparr>status = 500,
                  body = JObj [(''success'', JBool False),
                               (''error'', JStr (message_of eng e)),
                               (''chunkIndex'', get requestBody ''chunkIndex''),
                               (''processingMode'', JStr ''chunk'')]\<rparr>))"

text \<open>The direct path of the handler, after the mode has been looked at.\<close>

definition invalid_input :: "validation \<Rightarrow> (string \<times> jsval) list" where
  "invalid_input validation =
     [(''error'', JStr ''Invalid input''), (''details'', JArr (map JStr (errors validation)))]"

definition no_results :: "speech_data \<Rightarrow> bool" where
  "no_results d = (case sd_results d of None \<Rightarrow> True | Some rs \<Rightarrow> length rs = 0)"

definition provider_error :: "speech_reply \<Rightarrow> (string \<times> jsval) list" where
  "provider_error reply =
     [(''error'', JStr ''Speech API Error''),
      (''message'', JStr (message_or_unknown (error_message (sr_data reply)))),
      (''code'', error_code (sr_data reply))]"

definition large_direct :: "world \<Rightarrow> string \<Rightarrow> jsval \<Rightarrow> jsval \<Rightarrow> response run" where
  "large_direct w token audioData config =
     (let validation = validateInput audioData config in
      if \<not> valid validation then return \<lparr>status = 400, body = JObj (invalid_input validation)\<rparr>
      else if audioSizeInMB audioData > 1000 then
        return
          \<lparr>status = 413,
           body = JObj [(''error'', JStr ''Audio file too large for direct processing''),
                        (''maxSize'', JStr ''1000MB''),
                        (''currentSize'', currentSize audioData),
                        (''suggestion'', JStr ''Use large file processing mode'')]\<rparr>
      else
        and_then (raising (buildSpeechRequest audioData config)) (\<lambda>speechRequestBody.
        and_then (calling (Recognize token speechRequestBody)
                    (recognize w token speechRequestBody)) (\<lambda>speechResponse.
        if \<not> sr_ok speechResponse then
          return \<lparr>status = sr_status speechResponse, body = JObj (provider_error speechResponse)\<rparr>
        else if no_results (sr_data speechResponse) then
          return
            \<lparr>status = 200,
             body = JObj [(''success'', JBool True),
                          (''results'', JArr []),
                          (''message'', JStr ''No speech detected in audio''),
                          (''processingMode'', JStr ''direct'')]\<rparr>
        else
          return
            \<lparr>status = 200,
             body = JObj [(''success'', JBool True),
                          (''results'', results_json (sd_results (sr_data speechResponse))),
                          (''totalBilledTime'', sd_totalBilledTime (sr_data speechResponse)),
                          (''requestId'', JStr (generateRequestId w)),
                          (''processingMode'', JStr ''direct'')]\<rparr>)))"

definition large_handler_try :: "engine \<Rightarrow> env \<Rightarrow> world \<Rightarrow> jsval \<Rightarrow> response run" where
  "large_handler_try eng env w requestBody =
     and_then (check_environment env) (\<lambda>u.
     and_then (decode_key env w) (\<lambda>serviceAccountInfo.
     and_then (authenticate w 0) (\<lambda>token.
     and_then (destructure ''req.body'' requestBody) (\<lambda>u.
     if get requestBody ''processingMode'' = JStr ''large_file_cloud_storage'' then
       processLargeFileViaCloudStorage eng w requestBody
     else if get requestBody ''processingMode'' = JStr ''chunk_processing'' then
       processAudioChunk eng w requestBody token
     else
       large_direct w token (get requestBody ''audioData'') (get requestBody ''config'')))))"

definition method_not_allowed :: response where
  "method_not_allowed =
     \<lparr>status = 405,
      body = JObj [(''error'', JStr ''Method not allowed''),
                   (''allowedMethods'', JArr [JStr ''POST'', JStr ''OPTIONS''])]\<rparr>"

text \<open>What a handler shows: the calls it made to its collaborators and its response.\<close>

definition large_handler :: "engine \<Rightarrow> env \<Rightarrow> world \<Rightarrow> request \<Rightarrow> call list \<times> response" where
  "large_handler eng env w req =
     (if req_method req = ''OPTIONS'' then ([], \<lparr>status = 200, body = JUndef\<rparr>)
      else if req_method req \<noteq> ''POST'' then ([], method_not_allowed)
      else
        (case large_handler_try eng env w (req_body req) of
           (calls, Inr r) \<Rightarrow> (calls, r)
         | (calls, Inl e) \<Rightarrow> (calls, server_error_response eng env w e)))"

section \<open>api/speech-to-text.js, the version with a service account\<close>

text \<open>
  The second handler of src/speech-to-text.js. It has one mode, and its size limit is 15
  megabytes.
\<close>

definition account_handler_try :: "env \<Rightarrow> world \<Rightarrow> jsval \<Rightarrow> response run" where
  "account_handler_try env w requestBody =
     and_then (check_environment env) (\<lambda>u.
     and_then (decode_key env w) (\<lambda>serviceAccountInfo.
     and_then (authenticate w 0) (\<lambda>token.
     and_then (destructure ''req.body'' requestBody) (\<lambda>u.
     let audioData = get requestBody ''audioData'';
         config = get requestBody ''config'';
         validation = validateInput audioData config
     in
     if \<not> valid validation then return \<lparr>status = 400, body = JObj (invalid_input validation)\<rparr>
     else if audioSizeInMB audioData > 15 then
       return
         \<lparr>status = 413,
          body = JObj [(''error'', JStr ''Audio file too large''),
                       (''maxSize'', JStr ''15MB''),
                       (''currentSize'', currentSize audioData)]\<rparr>
     else
       and_then (raising (buildSpeechRequest audioData config)) (\<lambda>speechRequestBody.
       and_then (calling (Recognize token speechRequestBody)
                   (recognize w token speechRequestBody)) (\<lambda>speechResponse.
       if \<not> sr_ok speechResponse then
         return \<lparr>status = sr_status speechResponse, body = JObj (provider_error speechResponse)\<rparr>
       else if no_results (sr_data speechResponse) then
         return
           \<lparr>status = 200,
            body = JObj [(''success'', JBool True),
                         (''results'', JArr []),
                         (''message'', JStr ''No speech detected in audio'')]\<rparr>
       else
         return
           \<lparr>status = 200,
            body = JObj [(''success'', JBool True),
                         (''results'', results_json (sd_results (sr_data speechResponse))),
                         (''totalBilledTime'', sd_totalBilledTime (sr_data speechResponse)),
                         (''requestId'', JStr (generateRequestId w))]\<rparr>))))))"

definition account_handler :: "engine \<Rightarrow> env \<Rightarrow> world \<Rightarrow> request \<Rightarrow> call list \<times> response" where
  "account_handler eng env w req =
     (if req_method req = ''OPTIONS'' then ([], \<lparr>status = 200, body = JUndef\<rparr>)
      else if req_method req \<noteq> ''POST'' then ([], method_not_allowed)
      else
        (case account_handler_try env w (req_body req) of
           (calls, Inr r) \<Rightarrow> (calls, r)
         | (calls, Inl e) \<Rightarrow> (calls, server_error_response eng env w e)))"

section \<open>api/speech-to-text.js, the version with an API key\<close>

text \<open>
  The first handler of src/speech-to-text.js. The caller sends the provider's API key;
  there is no credential provider, no validator and no size limit, and the provider's
  config is written in place, again ending with \<^verbatim>\<open>...config\<close>.
\<close>

definition no_text_extracted :: string where
  "no_text_extracted =
     [CHR 0xE9, CHR 0x9F, CHR 0xB3, CHR 0xE5, CHR 0xA3, CHR 0xB0, CHR 0xE3, CHR 0x81,
      CHR 0x8B, CHR 0xE3, CHR 0x82, CHR 0x89, CHR 0xE3, CHR 0x83, CHR 0x86, CHR 0xE3,
      CHR 0x82, CHR 0xAD, CHR 0xE3, CHR 0x82, CHR 0xB9, CHR 0xE3, CHR 0x83, CHR 0x88,
      CHR 0xE3, CHR 0x82, CHR 0x92, CHR 0xE6, CHR 0x8A, CHR 0xBD, CHR 0xE5, CHR 0x87,
      CHR 0xBA, CHR 0xE3, CHR 0x81, CHR 0xA7, CHR 0xE3, CHR 0x81, CHR 0x8D, CHR 0xE3,
      CHR 0x81, CHR 0xBE, CHR 0xE3, CHR 0x81, CHR 0x9B, CHR 0xE3, CHR 0x82, CHR 0x93,
      CHR 0xE3, CHR 0x81, CHR 0xA7, CHR 0xE3, CHR 0x81, CHR 0x97, CHR 0xE3, CHR 0x81,
      CHR 0x9F]"

definition key_defaults :: "jsval \<Rightarrow> (string \<times> jsval) list" where
  "key_defaults config =
     [(''encoding'', or_else (get config ''encoding'') (JStr ''WEBM_OPUS'')),
      (''sampleRateHertz'', or_else (get config ''sampleRateHertz'') (JNum 16000)),
      (''languageCode'', or_else (get config ''languageCode'') (JStr ''ja-JP'')),
      (''model'', JStr ''latest_long''),
      (''useEnhanced'', JBool True),
      (''enableAutomaticPunctuation'', JBool True),
      (''enableWordTimeOffsets'', JBool True)]"

definition key_request :: "jsval \<Rightarrow> jsval \<Rightarrow> jsval" where
  "key_request audioData config =
     (let requestConfig = spread (key_defaults config) config;
          requestConfig =
            (if truthy (get config ''diarizationConfig'')
             then AList.update ''diarizationConfig'' (get config ''diarizationConfig'')
                    requestConfig
             else requestConfig)
      in JObj [(''config'', JObj requestConfig), (''audio'', JObj [(''content'', audioData)])])"

definition key_handler_try :: "engine \<Rightarrow> world \<Rightarrow> jsval \<Rightarrow> response run" where
  "key_handler_try eng w requestBody =
     and_then (destructure ''req.body'' requestBody) (\<lambda>u.
     let audioData = get requestBody ''audioData'';
         config = get requestBody ''config'';
         apiKey = get requestBody ''apiKey''
     in
     if \<not> truthy audioData \<or> \<not> truthy config \<or> \<not> truthy apiKey then
       return
         \<lparr>status = 400,
          body = JObj [(''error'',
                        JStr ''Missing required parameters: audioData, config, apiKey'')]\<rparr>
     else
       and_then (calling (Recognize (ToString eng apiKey) (key_request audioData config))
                   (recognize w (ToString eng apiKey) (key_request audioData config)))
         (\<lambda>speechResponse.
       if \<not> sr_ok speechResponse then
         return
           \<lparr>status = sr_status speechResponse,
            body = JObj [(''error'',
                          JStr (''Speech API Error: ''
                                  @ message_or_unknown (error_message (sr_data speechResponse)))),
                         (''details'', speech_data_json (sr_data speechResponse))]\<rparr>
       else if no_results (sr_data speechResponse) then
         return
           \<lparr>status = 400,
            body = JObj [(''error'', JStr no_text_extracted),
                         (''details'', speech_data_json (sr_data speechResponse))]\<rparr>
       else
         return
           \<lparr>status = 200,
            body = JObj [(''success'', JBool True),
                         (''results'', results_json (sd_results (sr_data speechResponse))),
                         (''totalBilledTime'', sd_totalBilledTime (sr_data speechResponse))]\<rparr>))"

definition key_handler :: "engine \<Rightarrow> world \<Rightarrow> request \<Rightarrow> call list \<times> response" where
  "key_handler eng w req =
     (if req_method req = ''OPTIONS'' then ([], \<lparr>status = 200, body = JUndef\<rparr>)
      else if req_method req \<noteq> ''POST'' then
        ([], \<lparr>status = 405, body = JObj [(''error'', JStr ''Method not allowed'')]\<rparr>)
      else
        (case key_handler_try eng w (req_body req) of
           (calls, Inr r) \<Rightarrow> (calls, r)
         | (calls, Inl e) \<Rightarrow>
             (calls,
              \<lparr>status = 500,
               body = JObj [(''error'', JStr ''Internal server error''),
                            (''message'', JStr (message_of eng e))]\<rparr>)))"

section \<open>api/process-audio-chunk.js\<close>

text \<open>
  The confidence this handler reports: the sum over the results of the first
  alternative's confidence (0 where it has none), divided by the number of results, and 0
  when there are no results. The sum and the quotient are taken in the rationals; the
  source takes them in doubles, which round.
\<close>

definition confidence_or_0 :: "alternative \<Rightarrow> rat" where
  "confidence_or_0 a = (case alt_confidence a of None \<Rightarrow> 0 | Some c \<Rightarrow> c)"

definition mean_confidence :: "recognition_result list option \<Rightarrow> exn + rat" where
  "mean_confidence results =
     (case results of
        None \<Rightarrow> Inr 0
      | Some rs \<Rightarrow>
          if length rs > 0
          then (case top_alternatives rs of
                  Inl e \<Rightarrow> Inl e
                | Inr tops \<Rightarrow>
                    Inr (foldl (\<lambda>sum a. sum + confidence_or_0 a) 0 tops / of_nat (length rs)))
          else Inr 0)"

text \<open>\<^verbatim>\<open>transcript.split(' ').filter(word => word.length > 0).length\<close>.\<close>

fun split_space :: "string \<Rightarrow> string list" where
  "split_space [] = [[]]"
| "split_space (c # cs) =
     (if c = CHR '' '' then [] # split_space cs
      else (case split_space cs of [] \<Rightarrow> [[c]] | w # ws \<Rightarrow> (c # w) # ws))"

definition wordCount :: "string \<Rightarrow> nat" where
  "wordCount transcript = length (filter (\<lambda>word. length word > 0) (split_space transcript))"

text \<open>
  \<^verbatim>\<open>estimateChunkDuration\<close>: the bytes of the estimate over 16384 bytes per second,
  rounded by \<^verbatim>\<open>Math.round\<close>. All of it is exact on doubles.
\<close>

definition estimateChunkDuration :: "rat \<Rightarrow> nat" where
  "estimateChunkDuration sizeInMB =
     nat \<lfloor>sizeInMB * 1024 * 1024 / ((128 * 1024) / 8) + 1 / 2\<rfloor>"

definition chunk_error_response :: "engine \<Rightarrow> env \<Rightarrow> world \<Rightarrow> jsval \<Rightarrow> exn \<Rightarrow> response" where
  "chunk_error_response eng env w requestBody e =
     (if str_includes (message_of eng e) google_cloud_settings then
        \<lparr>status = 500,
         body = JObj [(''success'', JBool False),
                      (''error'', JStr ''Server configuration error''),
                      (''message'', JStr ''Google Cloud settings are invalid''),
                      (''chunkIndex'', get_opt requestBody ''chunkIndex'')]\<rparr>
      else if str_includes (message_of eng e) ''Authentication'' then
        \<lparr>status = 401,
         body = JObj [(''success'', JBool False),
                      (''error'', JStr ''Authentication failed''),
                      (''message'', JStr ''Failed to authenticate with Google Cloud''),
                      (''chunkIndex'', get_opt requestBody ''chunkIndex'')]\<rparr>
      else
        \<lparr>status = 500,
         body = JObj [(''success'', JBool False),
                      (''error'', JStr ''Internal server error''),
                      (''message'',
                       JStr (if NODE_ENV env = Some ''development'' then message_of eng e
                             else ''Chunk processing failed'')),
                      (''chunkIndex'', or_else (get_opt requestBody ''chunkIndex'') JNull),
                      (''requestId'', JStr (generateRequestId w))]\<rparr>)"

definition chunk_handler_try :: "engine \<Rightarrow> env \<Rightarrow> world \<Rightarrow> jsval \<Rightarrow> response run" where
  "chunk_handler_try eng env w requestBody =
     and_then (check_environment env) (\<lambda>u.
     and_then (destructure ''req.body'' requestBody) (\<lambda>u.
     let audioData = get requestBody ''audioData'';
         chunkIndex = get requestBody ''chunkIndex'';
         startTime = get requestBody ''startTime'';
         config = get requestBody ''config'';
         validation = validateChunkInput eng audioData chunkIndex config
     in
     if \<not> valid validation then
       return \<lparr>status = 400,
               body = JObj (invalid_input validation @ [(''chunkIndex'', chunkIndex)])\<rparr>
     else if audioSizeInMB audioData > 50 then
       return
         \<lparr>status = 413,
          body = JObj [(''error'', JStr ''Audio chunk too large''),
                       (''maxSize'', JStr ''50MB''),
                       (''currentSize'', currentSize audioData),
                       (''chunkIndex'', chunkIndex)]\<rparr>
     else
       and_then (decode_key env w) (\<lambda>serviceAccountInfo.
       and_then (authenticate w 0) (\<lambda>token.
       and_then (raising (buildChunkSpeechRequest audioData config)) (\<lambda>speechRequest.
       and_then (calling (Recognize token speechRequest)
                   (recognize w token speechRequest)) (\<lambda>speechResponse.
       if \<not> sr_ok speechResponse then
         return
           \<lparr>status = sr_status speechResponse,
            body = JObj ((''success'', JBool False) # provider_error speechResponse
                         @ [(''chunkIndex'', chunkIndex), (''startTime'', startTime)])\<rparr>
       else
         and_then (raising (chunk_transcript (sd_results (sr_data speechResponse))))
           (\<lambda>transcript.
         and_then (raising (mean_confidence (sd_results (sr_data speechResponse))))
           (\<lambda>confidence.
         return
           \<lparr>status = 200,
            body = JObj [(''success'', JBool True),
                         (''transcript'', JStr transcript),
                         (''chunkIndex'', chunkIndex),
                         (''startTime'', or_else startTime (JNum 0)),
                         (''duration'',
                          JNum (of_nat (estimateChunkDuration (audioSizeInMB audioData)))),
                         (''confidence'', JNum confidence),
                         (''wordCount'', JNum (of_nat (wordCount transcript))),
                         (''wordDetails'',
                          extractWordDetails w (sd_results (sr_data speechResponse))),
                         (''processingMode'', JStr ''chunk''),
                         (''requestId'', JStr (generateRequestId w))]\<rparr>))))))))"

definition chunk_handler :: "engine \<Rightarrow> env \<Rightarrow> world \<Rightarrow> request \<Rightarrow> call list \<times> response" where
  "chunk_handler eng env w req =
     (if req_method req = ''OPTIONS'' then ([], \<lparr>status = 200, body = JUndef\<rparr>)
      else if req_method req \<noteq> ''POST'' then ([], method_not_allowed)
      else
        (case chunk_handler_try eng env w (req_body req) of
           (calls, Inr r) \<Rightarrow> (calls, r)
         | (calls, Inl e) \<Rightarrow> (calls, chunk_error_response eng env w (req_body req) e)))"

section \<open>api/cleanup-files.js and api/process-drive-audio.js\<close>

text \<open>
  The two files of src/unnamed/part_000 use \<^verbatim>\<open>GoogleAuth\<close>, \<^verbatim>\<open>Storage\<close> and
  \<^verbatim>\<open>processLongRunningOperation\<close> without importing them; the model takes them to be
  the library classes and the function of that name in api/process-large-audio.js.
  Here the console is part of what the code shows.
\<close>

datatype console_line = ConsoleLog string | ConsoleWarn string string

text \<open>\<^verbatim>\<open>process.env.GOOGLE_STORAGE_BUCKET || d\<close>.\<close>

definition bucket_or :: "env \<Rightarrow> string \<Rightarrow> string" where
  "bucket_or env d =
     (case GOOGLE_STORAGE_BUCKET env of None \<Rightarrow> d | Some b \<Rightarrow> if b = [] then d else b)"

text \<open>
  \<^verbatim>\<open>cleanupTempFile\<close>: the whole body is one \<^verbatim>\<open>try\<close> whose \<^verbatim>\<open>catch\<close> only warns, so
  the function has no way to throw.
\<close>

definition cleanupTempFile :: "env \<Rightarrow> world \<Rightarrow> string \<Rightarrow> call list \<times> console_line list" where
  "cleanupTempFile env w objectName =
     (let bucketName = bucket_or env ''speech-audio-files'' in
      ([StorageDelete bucketName (JStr objectName)],
       case storageDelete w bucketName 0 (JStr objectName) of
         None \<Rightarrow> [ConsoleLog (''Temp file deleted: '' @ objectName)]
       | Some m \<Rightarrow> [ConsoleWarn (''Failed to delete temp file '' @ objectName @ '':'') m]))"












section \<open>Conditions and concrete inputs\<close>

text \<open>
  The credential provider and the environment do their part: the key and the project are
  set, the key decodes, and the first request for a client and for a token succeeds, with
  this token.
\<close>

definition authenticated :: "env \<Rightarrow> world \<Rightarrow> string \<Rightarrow> bool" where
  "authenticated env w token =
     (case GOOGLE_SERVICE_ACCOUNT_KEY env of
        None \<Rightarrow> False
      | Some k \<Rightarrow>
          k \<noteq> [] \<and> \<not> unset (GOOGLE_PROJECT_ID env)
          \<and> (case decodeKey w k of Inl m \<Rightarrow> False | Inr info \<Rightarrow> True)
          \<and> getClient w 0 = None \<and> getAccessToken w 0 = Inr token)"

text \<open>A body that the large file handler sends down its direct path.\<close>

definition direct_mode :: "jsval \<Rightarrow> bool" where
  "direct_mode requestBody =
     (\<not> nullish requestBody
      \<and> get requestBody ''processingMode'' \<noteq> JStr ''large_file_cloud_storage''
      \<and> get requestBody ''processingMode'' \<noteq> JStr ''chunk_processing'')"

text \<open>
  An environment and collaborators to run the handlers on concrete requests: the
  credential provider answers, the recognition provider hears no speech, every deletion
  succeeds.
\<close>

definition sample_env :: env where
  "sample_env =
     \<lparr>GOOGLE_SERVICE_ACCOUNT_KEY = Some ''eyJ0eXBlIjoic2VydmljZV9hY2NvdW50In0='',
      GOOGLE_PROJECT_ID = Some ''speech-project'',
      GOOGLE_STORAGE_BUCKET = None,
      NODE_ENV = Some ''production''\<rparr>"

definition silence :: speech_reply where
  "silence =
     \<lparr>sr_ok = True, sr_status = 200,
      sr_data = \<lparr>sd_results = None, sd_totalBilledTime = JUndef, sd_error = None\<rparr>\<rparr>"

definition sample_world :: world where
  "sample_world =
     \<lparr>decodeKey = (\<lambda>key. Inr (JObj [(''type'', JStr ''service_account'')])),
      getClient = (\<lambda>n. None),
      getAccessToken = (\<lambda>n. Inr ''ya29.token''),
      recognize = (\<lambda>token request. Inr silence),
      longRunningRecognize =
        (\<lambda>token request.
           Inr \<lparr>os_ok = True, os_error_message = None, os_name = JStr ''operations/1''\<rparr>),
      getOperation =
        (\<lambda>name n. Data \<lparr>op_done = True, op_error = None, op_progress = None,
                          op_response = JObj [(''results'', JArr [])]\<rparr>),
      storageDelete = (\<lambda>bucketName i objectName. None),
      driveDelete = (\<lambda>token i fileId. None),
      driveGet =
        (\<lambda>token fileId. Inr (JObj [(''name'', JStr ''talk.mp3''), (''mimeType'', JStr ''audio/mpeg'')])),
      driveDownload = (\<lambda>token fileId. None),
      storageSave = (\<lambda>bucketName objectName. None),
      now = 1700000000000,
      generateRequestId = ''req_1700000000000_k3j9x2m1q'',
      extractWordDetails = (\<lambda>results. JArr [])\<rparr>"

text \<open>A request without audio: its validation fails, in either validator.\<close>

definition no_audio_body :: jsval where
  "no_audio_body =
     JObj [(''audioData'', JStr []),
           (''config'', JObj [(''encoding'', JStr ''MP3''), (''languageCode'', JStr ''ja-JP'')])]"

text \<open>
  Three base64 payloads: a few bytes, one whose estimate is just above 16 megabytes, and
  one whose estimate is 1200 megabytes; and a direct request that carries one of them.
\<close>

definition payload_small :: string where
  "payload_small = ''UklGRiQAAABXQVZF''"

definition payload_16MB :: string where
  "payload_16MB = replicate 22369622 (CHR ''A'')"

definition payload_1200MB :: string where
  "payload_1200MB = replicate 1677721600 (CHR ''A'')"

definition direct_body :: "string \<Rightarrow> jsval" where
  "direct_body audio =
     JObj [(''audioData'', JStr audio),
           (''config'', JObj [(''encoding'', JStr ''LINEAR16''), (''languageCode'', JStr ''en-US'')]),
           (''clientId'', JStr ''client_abc123'')]"

text \<open>A request to the API key handler.\<close>

definition key_body :: jsval where
  "key_body =
     JObj [(''audioData'', JStr payload_small),
           (''config'', JObj [(''encoding'', JStr ''MP3''), (''languageCode'', JStr ''ja-JP'')]),
           (''apiKey'', JStr ''AIzaSyExample'')]"

text \<open>
  A reply with two results, of confidence 0.9 and 0.5, collaborators that give it, and a
  chunk request that asks for diarization, as either chunk path can receive it.
\<close>

definition two_results :: "recognition_result list" where
  "two_results =
     [\<lparr>res_alternatives =
          [\<lparr>alt_transcript = ''hello'', alt_confidence = Some (9 / 10), alt_more = []\<rparr>],
        res_more = []\<rparr>,
      \<lparr>res_alternatives =
          [\<lparr>alt_transcript = ''world'', alt_confidence = Some (1 / 2), alt_more = []\<rparr>],
        res_more = []\<rparr>]"

definition two_results_world :: world where
  "two_results_world =
     sample_world
       \<lparr>recognize :=
          (\<lambda>token request.
             Inr \<lparr>sr_ok = True, sr_status = 200,
                  sr_data = \<lparr>sd_results = Some two_results, sd_totalBilledTime = JStr ''8s'',
                             sd_error = None\<rparr>\<rparr>)\<rparr>"

definition chunk_body :: jsval where
  "chunk_body =
     JObj [(''audioData'', JStr payload_small),
           (''chunkIndex'', JNum 3),
           (''startTime'', JNum 90),
           (''config'',
            JObj [(''encoding'', JStr ''MP3''), (''languageCode'', JStr ''ja-JP''),
                  (''enableDiarization'', JBool True)]),
           (''processingMode'', JStr ''chunk_processing'')]"








text \<open>
  Replies to the pollers' fetch. The first is what the loop reads of a reply with status
  503 whose body is the provider's error object,
  \<^verbatim>\<open>{error: {code: 503, message: 'The service is currently unavailable.', status: 'UNAVAILABLE'}}\<close>:
  \<^verbatim>\<open>done\<close> is undefined, \<^verbatim>\<open>error.message\<close> is the provider's text, and there is
  neither \<^verbatim>\<open>metadata\<close> nor \<^verbatim>\<open>response\<close>. The second is an operation that finished
  without error and recognised nothing.
\<close>

definition service_unavailable :: "jsval operation" where
  "service_unavailable =
     \<lparr>op_done = False, op_error = Some ''The service is currently unavailable.'',
      op_progress = None, op_response = JUndef\<rparr>"

definition finished :: "jsval operation" where
  "finished =
     \<lparr>op_done = True, op_error = None, op_progress = None,
      op_response = JObj [(''results'', JArr [])]\<rparr>"

text \<open>
  Four providers, by the number of the fetch: the first two fetches fail and the third
  finds the operation finished, or every fetch fails; the failure is either the reply
  with status 503 or a fetch whose promise rejects.
\<close>

definition unavailable_twice :: "nat \<Rightarrow> jsval poll_reply" where
  "unavailable_twice i = (if i < 2 then Data service_unavailable else Data finished)"

definition always_unavailable :: "nat \<Rightarrow> jsval poll_reply" where
  "always_unavailable i = Data service_unavailable"

definition rejected_twice :: "nat \<Rightarrow> jsval poll_reply" where
  "rejected_twice i = (if i < 2 then Throws ''fetch failed'' else Data finished)"

definition always_rejected :: "nat \<Rightarrow> jsval poll_reply" where
  "always_rejected i = Throws ''fetch failed''"

chapter \<open>Properties\<close>

section \<open>The pollers retry and stop\<close>

lemma sleeps_append: "sleeps (xs @ ys) = sleeps xs @ sleeps ys"
  by (induction xs rule: sleeps.induct) simp_all

lemma fetches_append: "fetches (xs @ ys) = fetches xs + fetches ys"
  by (induction xs rule: fetches.induct) simp_all

lemma poll_loop_done:
  assumes "attempt < maxAttempts" "fetch attempt = Data d" "op_done d" "op_error d = None"
  shows "poll_loop t l maxAttempts attempt fetch = ([Fetch], Inr (op_response d))"
  using assms by (subst poll_loop.simps) (simp add: poll_try_def)

lemma poll_loop_retry:
  assumes "Suc attempt < maxAttempts" "\<not> completes (fetch attempt)"
  shows "poll_loop t l maxAttempts attempt fetch =
           apfst ((@) (retry_events l (fetch attempt)))
             (poll_loop t l maxAttempts (Suc attempt) fetch)"
  using assms
  by (subst poll_loop.simps)
     (auto simp: poll_try_def retry_events_def completes_def
           split: poll_reply.splits option.splits)

text \<open>
  The first reply that completes, if it comes within the attempts allowed, is returned;
  every iteration before it leaves its retry events.
\<close>

lemma poll_loop_completes:
  assumes "attempt \<le> k" "k < maxAttempts"
    and "\<forall>i. attempt \<le> i \<and> i < k \<longrightarrow> \<not> completes (fetch i)"
    and "fetch k = Data d" "op_done d" "op_error d = None"
  shows "poll_loop t l maxAttempts attempt fetch =
           (concat (map (\<lambda>i. retry_events l (fetch i)) [attempt..<k]) @ [Fetch],
            Inr (op_response d))"
  using assms
proof (induction "k - attempt" arbitrary: attempt)
  case 0
  then have "attempt = k" by simp
  with 0 show ?case by (simp add: poll_loop_done)
next
  case (Suc n)
  then have lt: "attempt < k" and nc: "\<not> completes (fetch attempt)" by auto
  have step: "poll_loop t l maxAttempts attempt fetch =
      apfst ((@) (retry_events l (fetch attempt)))
        (poll_loop t l maxAttempts (Suc attempt) fetch)"
    using lt Suc.prems(2) nc by (intro poll_loop_retry) auto
  have ih: "poll_loop t l maxAttempts (Suc attempt) fetch =
      (concat (map (\<lambda>i. retry_events l (fetch i)) [Suc attempt..<k]) @ [Fetch],
       Inr (op_response d))"
    using Suc.hyps(2) lt Suc.prems by (intro Suc.hyps(1)) auto
  show ?case using lt by (simp add: step ih upt_conv_Cons)
qed

text \<open>An error thrown in the last iteration is the poller's error.\<close>

lemma poll_loop_last_throw:
  assumes "attempt < maxAttempts"
    and "\<forall>i. attempt \<le> i \<and> i < maxAttempts - 1 \<longrightarrow> \<not> completes (fetch i)"
    and "fetch (maxAttempts - 1) = Throws m"
  shows "poll_loop t l maxAttempts attempt fetch =
           (concat (map (\<lambda>i. retry_events l (fetch i)) [attempt..<maxAttempts - 1]) @ [Fetch],
            Inl m)"
  using assms
proof (induction "maxAttempts - 1 - attempt" arbitrary: attempt)
  case 0
  then have "attempt = maxAttempts - 1" by simp
  with 0 show ?case by (subst poll_loop.simps) (simp add: poll_try_def)
next
  case (Suc n)
  then have lt: "attempt < maxAttempts - 1" and nc: "\<not> completes (fetch attempt)" by auto
  have step: "poll_loop t l maxAttempts attempt fetch =
      apfst ((@) (retry_events l (fetch attempt)))
        (poll_loop t l maxAttempts (Suc attempt) fetch)"
    using lt nc by (intro poll_loop_retry) auto
  have ih: "poll_loop t l maxAttempts (Suc attempt) fetch =
      (concat (map (\<lambda>i. retry_events l (fetch i)) [Suc attempt..<maxAttempts - 1]) @ [Fetch],
       Inl m)"
    using Suc.hyps(2) lt Suc.prems by (intro Suc.hyps(1)) auto
  show ?case using lt by (simp add: step ih upt_conv_Cons)
qed

text \<open>
  Replies that all report a running operation: one fetch and one 5000 ms timer per
  attempt, then the timeout error.
\<close>

lemma poll_loop_never_done:
  assumes "\<forall>i. attempt \<le> i \<and> i < maxAttempts \<longrightarrow> running (fetch i)"
  shows "snd (poll_loop t l maxAttempts attempt fetch) = Inl t
       \<and> fetches (fst (poll_loop t l maxAttempts attempt fetch)) = maxAttempts - attempt
       \<and> sleeps (fst (poll_loop t l maxAttempts attempt fetch))
           = replicate (maxAttempts - attempt) 5000"
  using assms
proof (induction "maxAttempts - attempt" arbitrary: attempt)
  case 0
  then show ?case by (subst (1 2 3) poll_loop.simps) simp
next
  case (Suc n)
  then have lt: "attempt < maxAttempts" and r: "running (fetch attempt)" by auto
  from r obtain d where d: "fetch attempt = Data d" "\<not> op_done d"
    by (auto simp: running_def split: poll_reply.splits)
  have ih: "snd (poll_loop t l maxAttempts (Suc attempt) fetch) = Inl t
       \<and> fetches (fst (poll_loop t l maxAttempts (Suc attempt) fetch)) = maxAttempts - Suc attempt
       \<and> sleeps (fst (poll_loop t l maxAttempts (Suc attempt) fetch))
           = replicate (maxAttempts - Suc attempt) 5000"
    using Suc.hyps(2) Suc.prems by (intro Suc.hyps(1)) auto
  have step: "poll_loop t l maxAttempts attempt fetch =
      apfst ((@) (fst (poll_try l (fetch attempt))))
        (poll_loop t l maxAttempts (Suc attempt) fetch)"
    using lt d by (subst poll_loop.simps) (simp add: poll_try_def)
  have ev: "fetches (fst (poll_try l (fetch attempt))) = 1"
    "sleeps (fst (poll_try l (fetch attempt))) = [5000]"
    using d by (auto simp: poll_try_def split: option.splits)
  have m: "maxAttempts - attempt = Suc (maxAttempts - Suc attempt)" using lt by simp
  show ?case
    unfolding step using ih ev by (simp add: fetches_append sleeps_append m)
qed

lemma retry_events_Throws: "retry_events l (Throws m) = [Fetch, Sleep 10000]"
  by (simp add: retry_events_def poll_try_def)

lemma concat_retry_Throws:
  assumes "\<forall>i<N. fetch i = Throws (msg i)"
  shows "concat (map (\<lambda>i. retry_events l (fetch i)) [0..<N]) = concat (replicate N [Fetch, Sleep 10000])"
proof -
  have "map (\<lambda>i. retry_events l (fetch i)) [0..<N] = replicate N [Fetch, Sleep 10000]"
    using assms by (intro nth_equalityI) (simp_all add: retry_events_Throws)
  then show ?thesis by simp
qed

text \<open>
  A fetch whose promise rejects is retried. When the first \<open>N\<close> fetches reject and the
  next one reports the operation done without error, with \<open>N\<close> below
  \<^verbatim>\<open>maxAttempts\<close>, both pollers return the operation's response; each rejected fetch
  is followed by a 10000 ms timer (twice the 5000 ms of a normal poll) and the next fetch.
  When the loop reaches its last iteration and the fetch rejects there, both pollers throw
  that failure.
\<close>

lemma pollers_retry_rejected_fetches:
  "(N < maxAttempts \<and> (\<forall>i<N. fetch i = Throws (msg i)) \<and> fetch N = Data d
      \<and> op_done d \<and> op_error d = None \<longrightarrow>
      pollLongRunningOperation fetch maxAttempts
        = (concat (replicate N [Fetch, Sleep 10000]) @ [Fetch], Inr (op_response d))
    \<and> pollOperation fetch maxAttempts
        = (concat (replicate N [Fetch, Sleep 10000]) @ [Fetch], Inr (op_response d)))
 \<and> (0 < maxAttempts \<and> (\<forall>i<maxAttempts - 1. \<not> completes (fetch i))
      \<and> fetch (maxAttempts - 1) = Throws m \<longrightarrow>
      snd (pollLongRunningOperation fetch maxAttempts) = Inl m
    \<and> snd (pollOperation fetch maxAttempts) = Inl m)"
proof (intro conjI impI)
  assume a: "N < maxAttempts \<and> (\<forall>i<N. fetch i = Throws (msg i)) \<and> fetch N = Data d
      \<and> op_done d \<and> op_error d = None"
  then have nc: "\<forall>i. 0 \<le> i \<and> i < N \<longrightarrow> \<not> completes (fetch i)"
    by (simp add: completes_def)
  have ev: "concat (map (\<lambda>i. retry_events l (fetch i)) [0..<N])
              = concat (replicate N [Fetch, Sleep 10000])" for l
    using a by (intro concat_retry_Throws [where msg = msg]) simp
  show "pollLongRunningOperation fetch maxAttempts
        = (concat (replicate N [Fetch, Sleep 10000]) @ [Fetch], Inr (op_response d))"
    unfolding pollLongRunningOperation_def
    using poll_loop_completes [of 0 N maxAttempts fetch d _ True] a nc ev by simp
  show "pollOperation fetch maxAttempts
        = (concat (replicate N [Fetch, Sleep 10000]) @ [Fetch], Inr (op_response d))"
    unfolding pollOperation_def
    using poll_loop_completes [of 0 N maxAttempts fetch d _ False] a nc ev by simp
next
  assume b: "0 < maxAttempts \<and> (\<forall>i<maxAttempts - 1. \<not> completes (fetch i))
      \<and> fetch (maxAttempts - 1) = Throws m"
  show "snd (pollLongRunningOperation fetch maxAttempts) = Inl m"
    unfolding pollLongRunningOperation_def
    using poll_loop_last_throw [of 0 maxAttempts fetch m _ True] b by simp
  show "snd (pollOperation fetch maxAttempts) = Inl m"
    unfolding pollOperation_def
    using poll_loop_last_throw [of 0 maxAttempts fetch m _ False] b by simp
qed

text \<open>
  A reply with an error status is not retried as a failure: the loop takes it for an
  operation that is still running.
\<close>

lemma retry_events_unavailable: "retry_events l (Data service_unavailable) = [Fetch, Sleep 5000]"
  by (simp add: retry_events_def poll_try_def service_unavailable_def)

lemma poll_loop_unavailable_twice:
  assumes "2 < maxAttempts"
  shows "poll_loop t l maxAttempts 0 unavailable_twice
           = ([Fetch, Sleep 5000, Fetch, Sleep 5000, Fetch], Inr (JObj [(''results'', JArr [])]))"
proof -
  have nc: "\<forall>i. 0 \<le> i \<and> i < 2 \<longrightarrow> \<not> completes (unavailable_twice i)"
    by (simp add: unavailable_twice_def completes_def service_unavailable_def)
  have up: "[0..<2] = [0, Suc 0]" by (simp add: numeral_2_eq_2)
  show ?thesis
    using poll_loop_completes [of 0 2 maxAttempts unavailable_twice finished t l] assms nc
    by (simp add: up retry_events_unavailable unavailable_twice_def finished_def)
qed

lemma poll_loop_rejected_twice:
  assumes "2 < maxAttempts"
  shows "poll_loop t l maxAttempts 0 rejected_twice
           = ([Fetch, Sleep 10000, Fetch, Sleep 10000, Fetch], Inr (JObj [(''results'', JArr [])]))"
proof -
  have nc: "\<forall>i. 0 \<le> i \<and> i < 2 \<longrightarrow> \<not> completes (rejected_twice i)"
    by (simp add: rejected_twice_def completes_def)
  have up: "[0..<2] = [0, Suc 0]" by (simp add: numeral_2_eq_2)
  show ?thesis
    using poll_loop_completes [of 0 2 maxAttempts rejected_twice finished t l] assms nc
    by (simp add: up retry_events_Throws rejected_twice_def finished_def)
qed

lemma poll_loop_always_unavailable:
  "snd (poll_loop t l maxAttempts 0 always_unavailable) = Inl t
 \<and> fetches (fst (poll_loop t l maxAttempts 0 always_unavailable)) = maxAttempts
 \<and> sleeps (fst (poll_loop t l maxAttempts 0 always_unavailable)) = replicate maxAttempts 5000"
  using poll_loop_never_done [of 0 maxAttempts always_unavailable t l]
  by (simp add: always_unavailable_def running_def service_unavailable_def)

lemma poll_loop_always_rejected:
  assumes "0 < maxAttempts"
  shows "snd (poll_loop t l maxAttempts 0 always_rejected) = Inl ''fetch failed''"
  using poll_loop_last_throw [of 0 maxAttempts always_rejected "''fetch failed''" t l] assms
  by (simp add: always_rejected_def completes_def)

text \<open>
  C3 (the code differs). The claim counts a reply of the provider with a 5xx status among
  the transient failures: each is followed by a wait of about twice the poll interval,
  and one on the last attempt is the poller's error. Both pollers, left at their defaults,
  do so for a fetch that rejects: two rejected fetches are each followed by a 10000 ms
  timer before the result is returned, and fetches that reject up to the last attempt end
  in that rejection. For the reply with status 503 they do not: two such replies are each
  followed by the 5000 ms timer of a normal poll, and when every reply is one, the poller
  makes all its fetches, 120 or 60, sets the 5000 ms timer after each, the last included,
  and throws its timeout error, in which nothing is left of the provider's failure.
\<close>

theorem pollers_take_error_reply_for_running:
  "pollLongRunningOperation unavailable_twice pollLongRunningOperation_maxAttempts
     = ([Fetch, Sleep 5000, Fetch, Sleep 5000, Fetch], Inr (JObj [(''results'', JArr [])]))
 \<and> pollOperation unavailable_twice pollOperation_maxAttempts
     = ([Fetch, Sleep 5000, Fetch, Sleep 5000, Fetch], Inr (JObj [(''results'', JArr [])]))
 \<and> pollLongRunningOperation rejected_twice pollLongRunningOperation_maxAttempts
     = ([Fetch, Sleep 10000, Fetch, Sleep 10000, Fetch], Inr (JObj [(''results'', JArr [])]))
 \<and> pollOperation rejected_twice pollOperation_maxAttempts
     = ([Fetch, Sleep 10000, Fetch, Sleep 10000, Fetch], Inr (JObj [(''results'', JArr [])]))
 \<and> snd (pollLongRunningOperation always_unavailable pollLongRunningOperation_maxAttempts)
     = Inl ''Long running operation timeout (10 minutes)''
 \<and> fetches (fst (pollLongRunningOperation always_unavailable pollLongRunningOperation_maxAttempts))
     = 120
 \<and> sleeps (fst (pollLongRunningOperation always_unavailable pollLongRunningOperation_maxAttempts))
     = replicate 120 5000
 \<and> snd (pollOperation always_unavailable pollOperation_maxAttempts) = Inl ''Operation timeout''
 \<and> fetches (fst (pollOperation always_unavailable pollOperation_maxAttempts)) = 60
 \<and> sleeps (fst (pollOperation always_unavailable pollOperation_maxAttempts)) = replicate 60 5000
 \<and> snd (pollLongRunningOperation always_rejected pollLongRunningOperation_maxAttempts)
     = Inl ''fetch failed''
 \<and> snd (pollOperation always_rejected pollOperation_maxAttempts) = Inl ''fetch failed''"
  unfolding pollLongRunningOperation_def pollOperation_def
  using poll_loop_always_unavailable [of "''Long running operation timeout (10 minutes)''" True 120]
    poll_loop_always_unavailable [of "''Operation timeout''" False 60]
  by (simp add: pollLongRunningOperation_maxAttempts_def pollOperation_maxAttempts_def
        poll_loop_unavailable_twice poll_loop_rejected_twice poll_loop_always_rejected)

text \<open>
  C4 (as the code has it). The budget of attempts is the parameter \<^verbatim>\<open>maxAttempts\<close>: 120
  by default in \<^verbatim>\<open>pollLongRunningOperation\<close>, which with the 5000 ms timer is the 600
  seconds its timeout message names (10 minutes), and 60 by default in
  \<^verbatim>\<open>pollOperation\<close>, which is 300 seconds. For every \<^verbatim>\<open>maxAttempts\<close> and all replies
  that report the operation as running, each poller makes exactly \<^verbatim>\<open>maxAttempts\<close>
  fetches, sets a 5000 ms timer after each, and then throws its timeout error, whose
  message is not that of an operation error.
\<close>

theorem poller_timeout_after_budget:
  "pollLongRunningOperation_maxAttempts * 5000 = 600 * 1000
 \<and> pollOperation_maxAttempts * 5000 = 300 * 1000
 \<and> ((\<forall>i<maxAttempts. running (fetch i)) \<longrightarrow>
       snd (pollLongRunningOperation fetch maxAttempts)
         = Inl ''Long running operation timeout (10 minutes)''
     \<and> fetches (fst (pollLongRunningOperation fetch maxAttempts)) = maxAttempts
     \<and> sleeps (fst (pollLongRunningOperation fetch maxAttempts)) = replicate maxAttempts 5000
     \<and> snd (pollOperation fetch maxAttempts) = Inl ''Operation timeout''
     \<and> fetches (fst (pollOperation fetch maxAttempts)) = maxAttempts
     \<and> sleeps (fst (pollOperation fetch maxAttempts)) = replicate maxAttempts 5000)
 \<and> (\<forall>m. ''Long running operation timeout (10 minutes)'' \<noteq> ''Operation error: '' @ m)
 \<and> (\<forall>m. ''Operation timeout'' \<noteq> ''Operation error: '' @ m)"
proof (intro conjI impI)
  assume a: "\<forall>i<maxAttempts. running (fetch i)"
  then have r: "\<forall>i. 0 \<le> i \<and> i < maxAttempts \<longrightarrow> running (fetch i)" by simp
  note long = poll_loop_never_done
    [OF r, of "''Long running operation timeout (10 minutes)''" True]
  note short = poll_loop_never_done [OF r, of "''Operation timeout''" False]
  show "snd (pollLongRunningOperation fetch maxAttempts)
         = Inl ''Long running operation timeout (10 minutes)''"
    using long by (simp add: pollLongRunningOperation_def)
  show "fetches (fst (pollLongRunningOperation fetch maxAttempts)) = maxAttempts"
    using long by (simp add: pollLongRunningOperation_def)
  show "sleeps (fst (pollLongRunningOperation fetch maxAttempts)) = replicate maxAttempts 5000"
    using long by (simp add: pollLongRunningOperation_def)
  show "snd (pollOperation fetch maxAttempts) = Inl ''Operation timeout''"
    using short by (simp add: pollOperation_def)
  show "fetches (fst (pollOperation fetch maxAttempts)) = maxAttempts"
    using short by (simp add: pollOperation_def)
  show "sleeps (fst (pollOperation fetch maxAttempts)) = replicate maxAttempts 5000"
    using short by (simp add: pollOperation_def)
qed (simp_all add: pollLongRunningOperation_maxAttempts_def pollOperation_maxAttempts_def)

theorem poller_timeout_after_budget_witness:
  "snd (pollLongRunningOperation
          (\<lambda>i. Data \<lparr>op_done = False, op_error = None, op_progress = Some 40, op_response = ()\<rparr>)
          pollLongRunningOperation_maxAttempts)
     = Inl ''Long running operation timeout (10 minutes)''
 \<and> fetches (fst (pollLongRunningOperation
          (\<lambda>i. Data \<lparr>op_done = False, op_error = None, op_progress = Some 40, op_response = ()\<rparr>)
          pollLongRunningOperation_maxAttempts)) = 120
 \<and> sum_list (sleeps (fst (pollLongRunningOperation
          (\<lambda>i. Data \<lparr>op_done = False, op_error = None, op_progress = Some 40, op_response = ()\<rparr>)
          pollLongRunningOperation_maxAttempts))) = 600000"
  using poller_timeout_after_budget
    [of pollLongRunningOperation_maxAttempts
        "\<lambda>i. Data \<lparr>op_done = False, op_error = None, op_progress = Some 40, op_response = ()\<rparr>"]
  by (simp add: running_def sum_list_replicate pollLongRunningOperation_maxAttempts_def)

text \<open>
  The claim as stated gives the poller 120 attempts of 5 seconds for a timeout of 600
  seconds. \<^verbatim>\<open>pollOperation\<close>, left at its default and polling an operation that never
  finishes, stops after 60 fetches and 300 seconds of timers.
\<close>

theorem pollOperation_budget_counterexample:
  "pollOperation_maxAttempts \<noteq> 600 div 5
 \<and> snd (pollOperation
          (\<lambda>i. Data \<lparr>op_done = False, op_error = None, op_progress = None, op_response = ()\<rparr>)
          pollOperation_maxAttempts) = Inl ''Operation timeout''
 \<and> fetches (fst (pollOperation
          (\<lambda>i. Data \<lparr>op_done = False, op_error = None, op_progress = None, op_response = ()\<rparr>)
          pollOperation_maxAttempts)) = 60
 \<and> sum_list (sleeps (fst (pollOperation
          (\<lambda>i. Data \<lparr>op_done = False, op_error = None, op_progress = None, op_response = ()\<rparr>)
          pollOperation_maxAttempts))) = 300000"
proof -
  let ?f = "\<lambda>i::nat. Data \<lparr>op_done = False, op_error = None, op_progress = None, op_response = ()\<rparr>"
  have r: "\<forall>i. 0 \<le> i \<and> i < pollOperation_maxAttempts \<longrightarrow> running (?f i)"
    by (simp add: running_def)
  show ?thesis
    using poll_loop_never_done [OF r, of "''Operation timeout''" False]
    by (simp add: pollOperation_def pollOperation_maxAttempts_def sum_list_replicate)
qed

section \<open>What the request builders copy\<close>

lemma fold_update_names:
  "fst ` set (fold (\<lambda>(k, x). AList.update k x) ps base) = fst ` set base \<union> fst ` set ps"
proof (induction ps arbitrary: base)
  case Nil
  then show ?case by simp
next
  case (Cons p ps)
  obtain k x where p: "p = (k, x)" by (cases p)
  show ?case unfolding p by (simp add: Cons.IH AList.dom_update Un_commute Un_left_commute)
qed

lemma map_of_fold_update:
  "map_of (fold (\<lambda>(k, x). AList.update k x) ps base) = map_of base ++ map_of (rev ps)"
proof (induction ps arbitrary: base)
  case Nil
  then show ?case by simp
next
  case (Cons p ps)
  obtain k x where p: "p = (k, x)" by (cases p)
  show ?case
    by (simp add: p Cons.IH AList.update_conv' map_add_upd_left fun_eq_iff map_add_def
             split: option.splits)
qed

lemma map_of_rev_distinct:
  assumes "distinct (map fst ps)"
  shows "map_of (rev ps) = map_of ps"
  using assms by (subst map_of_inject_set) (simp_all add: rev_map [symmetric])

lemma spread_names: "fst ` set (spread base v) = fst ` set base \<union> field_names v"
  by (simp add: spread_def field_names_def fold_update_names)

lemma spread_value:
  assumes "distinct (map fst (own_props v))" "k \<in> field_names v"
  shows "map_of (spread base v) k = map_of (own_props v) k"
proof -
  from assms(2) obtain x where "map_of (own_props v) k = Some x"
    by (auto simp: field_names_def dest!: weak_map_of_SomeI)
  then show ?thesis
    using assms(1) by (simp add: spread_def map_of_fold_update map_of_rev_distinct map_add_def)
qed

lemma get_JObj: "get (JObj kvs) k = (case map_of kvs k of Some x \<Rightarrow> x | None \<Rightarrow> JUndef)"
  by (simp add: get_def split: option.splits)

lemma get_field:
  assumes "k \<in> field_names v"
  shows "map_of (own_props v) k = Some (get v k)"
proof -
  from assms obtain x where "map_of (own_props v) k = Some x"
    by (auto simp: field_names_def dest!: weak_map_of_SomeI)
  then show ?thesis by (simp add: get_def)
qed

lemma truthy_get_field:
  assumes "truthy (get v k)"
  shows "k \<in> field_names v \<or> k = ''length''"
proof (cases "map_of (own_props v) k")
  case None
  with assms show ?thesis
    by (auto simp: get_def split: jsval.splits if_splits)
next
  case (Some x)
  then have "(k, x) \<in> set (own_props v)" by (rule map_of_SomeD)
  then show ?thesis by (force simp: field_names_def)
qed

text \<open>
  C1 (as the code has it). \<^verbatim>\<open>buildSpeechRequest\<close> has no allow-list. For every config
  that is not \<^verbatim>\<open>undefined\<close> or \<^verbatim>\<open>null\<close> it returns a request whose provider config
  has exactly the eight default fields together with every field of the caller's config,
  whatever its name; and each field of the caller's config carries the caller's value,
  except a truthy \<^verbatim>\<open>diarizationConfig\<close>, which is rebuilt from the caller's speaker
  counts.
\<close>

theorem buildSpeechRequest_copies_every_field:
  assumes "\<not> nullish config"
  shows "\<exists>request. buildSpeechRequest audioData config = Inr request
     \<and> field_names (payload_config request) = set default_fields \<union> field_names config
     \<and> (distinct (map fst (own_props config)) \<longrightarrow>
          (\<forall>k \<in> field_names config.
             get (payload_config request) k =
               (if k = ''diarizationConfig'' \<and> truthy (get config k)
                then diarization_2_6 (get config k) else get config k)))"
proof -
  let ?rc = "spread (buildSpeechRequest_defaults config) config"
  let ?rc' = "if truthy (get config ''diarizationConfig'')
               then AList.update ''diarizationConfig''
                      (diarization_2_6 (get config ''diarizationConfig'')) ?rc
               else ?rc"
  let ?req = "JObj [(''config'', JObj ?rc'), (''audio'', JObj [(''content'', audioData)])]"
  have b: "buildSpeechRequest audioData config = Inr ?req"
    using assms by (simp add: buildSpeechRequest_def Let_def)
  have pc: "payload_config ?req = JObj ?rc'"
    by (simp add: payload_config_def get_def)
  have dn: "fst ` set (buildSpeechRequest_defaults config) = set default_fields"
    by (simp add: buildSpeechRequest_defaults_def default_fields_def)
  have dia: "truthy (get config ''diarizationConfig'')
               \<Longrightarrow> ''diarizationConfig'' \<in> field_names config"
    using truthy_get_field [of config "''diarizationConfig''"] by simp
  have names: "field_names (JObj ?rc') = set default_fields \<union> field_names config"
    using dia
    by (auto simp: field_names_def AList.dom_update spread_names [unfolded field_names_def] dn)
  have vals: "get (JObj ?rc') k =
               (if k = ''diarizationConfig'' \<and> truthy (get config k)
                then diarization_2_6 (get config k) else get config k)"
    if d: "distinct (map fst (own_props config))" and k: "k \<in> field_names config" for k
    using spread_value [OF d k, of "buildSpeechRequest_defaults config"] get_field [OF k]
    by (auto simp: get_JObj AList.update_conv')
  show ?thesis
    using b pc names vals by (intro exI [of _ ?req]) simp
qed

theorem buildSpeechRequest_copies_every_field_witness:
  "\<exists>request. buildSpeechRequest (JStr ''UklGRg=='') injecting_config = Inr request
     \<and> field_names (payload_config request) = set default_fields \<union> {''adaptation''}
     \<and> get (payload_config request) ''model'' = JStr ''phone_call''
     \<and> get (payload_config request) ''adaptation''
          = JObj [(''phraseSetReferences'', JArr [JStr ''projects/p/phraseSets/s''])]"
proof -
  have n: "\<not> nullish injecting_config" by (simp add: injecting_config_def)
  have d: "distinct (map fst (own_props injecting_config))"
    by (simp add: injecting_config_def)
  have f: "field_names injecting_config
             = {''encoding'', ''languageCode'', ''model'', ''adaptation''}"
    by (simp add: injecting_config_def field_names_def)
  from buildSpeechRequest_copies_every_field [OF n, of "JStr ''UklGRg==''"]
  obtain request where r:
    "buildSpeechRequest (JStr ''UklGRg=='') injecting_config = Inr request"
    "field_names (payload_config request) = set default_fields \<union> field_names injecting_config"
    "\<forall>k \<in> field_names injecting_config.
        get (payload_config request) k =
          (if k = ''diarizationConfig'' \<and> truthy (get injecting_config k)
           then diarization_2_6 (get injecting_config k) else get injecting_config k)"
    using d by blast
  have "get (payload_config request) ''model'' = get injecting_config ''model''"
    using r(3) f by simp
  moreover have "get (payload_config request) ''adaptation''
                   = get injecting_config ''adaptation''"
    using r(3) f by simp
  moreover have "set default_fields \<union> field_names injecting_config
                   = set default_fields \<union> {''adaptation''}"
    by (auto simp: f default_fields_def)
  ultimately show ?thesis
    using r(1,2) by (intro exI [of _ request]) (simp add: injecting_config_def get_def)
qed

text \<open>
  The claim as stated fails: the caller's \<^verbatim>\<open>adaptation\<close> field, which is on no list of
  config fields, reaches the provider request, and the caller's \<^verbatim>\<open>model\<close> replaces
  the builder's.
\<close>

theorem buildSpeechRequest_allow_list_counterexample:
  "buildSpeechRequest (JStr ''UklGRg=='') injecting_config
     = Inr (JObj [(''config'',
                   JObj [(''encoding'', JStr ''LINEAR16''),
                         (''sampleRateHertz'', JNum 16000),
                         (''languageCode'', JStr ''en-US''),
                         (''model'', JStr ''phone_call''),
                         (''useEnhanced'', JBool True),
                         (''enableAutomaticPunctuation'', JBool True),
                         (''enableWordTimeOffsets'', JBool True),
                         (''maxAlternatives'', JNum 1),
                         (''adaptation'',
                          JObj [(''phraseSetReferences'',
                                 JArr [JStr ''projects/p/phraseSets/s''])])]),
                  (''audio'', JObj [(''content'', JStr ''UklGRg=='')])])
 \<and> ''adaptation'' \<notin> set documented_config_fields"
  by (simp add: buildSpeechRequest_def buildSpeechRequest_defaults_def injecting_config_def
        spread_def get_def or_else_def documented_config_fields_def)

text \<open>
  The API key handler writes its request in place and ends the config with the same
  spread: there too every field of the caller's config reaches the provider.
\<close>

lemma key_request_copies_every_field:
  "field_names (payload_config (key_request audioData config))
     = {''encoding'', ''sampleRateHertz'', ''languageCode'', ''model'', ''useEnhanced'',
        ''enableAutomaticPunctuation'', ''enableWordTimeOffsets''} \<union> field_names config"
proof -
  have dia: "truthy (get config ''diarizationConfig'')
               \<Longrightarrow> ''diarizationConfig'' \<in> field_names config"
    using truthy_get_field [of config "''diarizationConfig''"] by simp
  have pc: "payload_config (key_request audioData config) =
      JObj (if truthy (get config ''diarizationConfig'')
            then AList.update ''diarizationConfig'' (get config ''diarizationConfig'')
                   (spread (key_defaults config) config)
            else spread (key_defaults config) config)"
    by (simp add: key_request_def Let_def payload_config_def get_JObj)
  have dn: "fst ` set (key_defaults config)
              = {''encoding'', ''sampleRateHertz'', ''languageCode'', ''model'', ''useEnhanced'',
                 ''enableAutomaticPunctuation'', ''enableWordTimeOffsets''}"
    by (simp add: key_defaults_def)
  have "field_names (payload_config (key_request audioData config))
          = fst ` set (key_defaults config) \<union> field_names config"
    unfolding pc using dia
    by (auto simp: field_names_def AList.dom_update spread_names [unfolded field_names_def])
  then show ?thesis unfolding dn .
qed

section \<open>What the validators check\<close>












section \<open>Validation and the credential provider\<close>

lemmas run_defs = and_then_def throw_def return_def calling_def raising_def destructure_def
  check_environment_def decode_key_def authenticate_def rejects_or_unit_def

lemma large_handler_direct:
  assumes "authenticated env w token" "direct_mode requestBody"
  shows "large_handler eng env w \<lparr>req_method = ''POST'', req_body = requestBody\<rparr> =
     (case large_direct w token (get requestBody ''audioData'') (get requestBody ''config'') of
        (calls, Inr r) \<Rightarrow> ([GetClient, GetAccessToken] @ calls, r)
      | (calls, Inl e) \<Rightarrow> ([GetClient, GetAccessToken] @ calls, server_error_response eng env w e))"
  using assms
  by (auto simp: large_handler_def large_handler_try_def authenticated_def direct_mode_def
        run_defs unset_def split: option.splits sum.splits prod.splits)

lemma account_handler_direct:
  assumes "authenticated env w token" "\<not> nullish requestBody"
  shows "fst (account_handler eng env w \<lparr>req_method = ''POST'', req_body = requestBody\<rparr>) \<noteq> []"
  using assms
  by (auto simp: account_handler_def account_handler_try_def authenticated_def Let_def
        run_defs unset_def split: option.splits sum.splits prod.splits)

lemma authenticated_sample: "authenticated sample_env sample_world ''ya29.token''"
  by (simp add: authenticated_def sample_env_def sample_world_def unset_def)

text \<open>
  In general: when the credential provider answers, a request on the direct path whose
  validation fails has caused exactly these two calls.
\<close>

lemma large_handler_invalid:
  assumes "authenticated env w token" "direct_mode requestBody"
    and "\<not> valid (validateInput (get requestBody ''audioData'') (get requestBody ''config''))"
  shows "large_handler eng env w \<lparr>req_method = ''POST'', req_body = requestBody\<rparr> =
     ([GetClient, GetAccessToken],
      \<lparr>status = 400,
       body = JObj (invalid_input
                (validateInput (get requestBody ''audioData'') (get requestBody ''config'')))\<rparr>)"
  using assms(3) by (simp add: large_handler_direct [OF assms(1,2)] large_direct_def Let_def return_def)

lemma account_handler_invalid:
  assumes "authenticated env w token" "\<not> nullish requestBody"
    and "\<not> valid (validateInput (get requestBody ''audioData'') (get requestBody ''config''))"
  shows "account_handler eng env w \<lparr>req_method = ''POST'', req_body = requestBody\<rparr> =
     ([GetClient, GetAccessToken],
      \<lparr>status = 400,
       body = JObj (invalid_input
                (validateInput (get requestBody ''audioData'') (get requestBody ''config'')))\<rparr>)"
  using assms
  by (auto simp: account_handler_def account_handler_try_def authenticated_def Let_def
        run_defs unset_def split: option.splits sum.splits prod.splits)

text \<open>
  The chunk handler validates first: a request whose validation fails is answered without
  any call to a collaborator.
\<close>

lemma chunk_handler_invalid:
  assumes "\<not> unset (GOOGLE_SERVICE_ACCOUNT_KEY env)" "\<not> unset (GOOGLE_PROJECT_ID env)"
    and "\<not> nullish requestBody"
    and "\<not> valid (validateChunkInput eng (get requestBody ''audioData'')
                   (get requestBody ''chunkIndex'') (get requestBody ''config''))"
  shows "chunk_handler eng env w \<lparr>req_method = ''POST'', req_body = requestBody\<rparr> =
     ([],
      \<lparr>status = 400,
       body = JObj (invalid_input
                      (validateChunkInput eng (get requestBody ''audioData'')
                         (get requestBody ''chunkIndex'') (get requestBody ''config''))
                    @ [(''chunkIndex'', get requestBody ''chunkIndex'')])\<rparr>)"
  using assms
  by (simp add: chunk_handler_def chunk_handler_try_def Let_def run_defs)

text \<open>
  C7 (the code differs). In the large file handler and in the service account handler the
  credential provider is asked for a client and for a token before the body is validated.
  The request without audio is answered with the validation error after both calls have
  been made. The chunk handler answers the same request after no call at all.
\<close>

theorem handlers_authenticate_before_validating:
  "large_handler sample_engine sample_env sample_world
     \<lparr>req_method = ''POST'', req_body = no_audio_body\<rparr>
     = ([GetClient, GetAccessToken],
        \<lparr>status = 400,
         body = JObj [(''error'', JStr ''Invalid input''),
                      (''details'',
                       JArr [JStr ''audioData is required and must be a base64 string''])]\<rparr>)
 \<and> account_handler sample_engine sample_env sample_world
     \<lparr>req_method = ''POST'', req_body = no_audio_body\<rparr>
     = ([GetClient, GetAccessToken],
        \<lparr>status = 400,
         body = JObj [(''error'', JStr ''Invalid input''),
                      (''details'',
                       JArr [JStr ''audioData is required and must be a base64 string''])]\<rparr>)
 \<and> chunk_handler sample_engine sample_env sample_world
     \<lparr>req_method = ''POST'', req_body = no_audio_body\<rparr>
     = ([],
        \<lparr>status = 400,
         body = JObj [(''error'', JStr ''Invalid input''),
                      (''details'',
                       JArr [JStr ''audioData is required and must be a base64 string'',
                             JStr ''chunkIndex is required and must be a number'']),
                      (''chunkIndex'', JUndef)]\<rparr>)"
proof -
  have cv: "validateChunkInput sample_engine (get no_audio_body ''audioData'')
             JUndef (get no_audio_body ''config'')
             = \<lparr>valid = False,
                errors = [''audioData is required and must be a base64 string'',
                          ''chunkIndex is required and must be a number'']\<rparr>"
    by (simp add: validateChunkInput_def no_audio_body_def get_def includes_encoding_def
          supportedEncodings_def sample_engine_def)
  have c: "get no_audio_body ''chunkIndex'' = JUndef"
    by (simp add: no_audio_body_def get_def)
  have e: "\<not> unset (GOOGLE_SERVICE_ACCOUNT_KEY sample_env)"
    "\<not> unset (GOOGLE_PROJECT_ID sample_env)"
    by (simp_all add: sample_env_def unset_def)
  have v: "validateInput (get no_audio_body ''audioData'') (get no_audio_body ''config'')
             = \<lparr>valid = False, errors = [''audioData is required and must be a base64 string'']\<rparr>"
    by (simp add: validateInput_def no_audio_body_def get_def)
  have d: "direct_mode no_audio_body"
    by (simp add: direct_mode_def no_audio_body_def get_def)
  have n: "\<not> nullish no_audio_body" by (simp add: no_audio_body_def)
  show ?thesis
    using large_handler_invalid [OF authenticated_sample d, of sample_engine]
      account_handler_invalid [OF authenticated_sample n, of sample_engine]
      chunk_handler_invalid [OF e n, of sample_engine sample_world]
    by (simp add: v cv c invalid_input_def)
qed

section \<open>The size estimate gates the direct path\<close>

lemma valid_input_shapes:
  assumes "valid (validateInput a c)"
  shows "\<not> nullish c" "\<exists>s. a = JStr s"
  using assms
  by (cases c; cases a; simp add: validateInput_def Let_def split: if_splits)+

lemma large_direct_proceeds:
  assumes "valid (validateInput a c)" "audioSizeInMB a \<le> 1000"
  shows "\<exists>request. buildSpeechRequest a c = Inr request
           \<and> fst (large_direct w token a c) = [Recognize token request]"
proof -
  from valid_input_shapes(1) [OF assms(1)]
  obtain request where r: "buildSpeechRequest a c = Inr request"
    by (auto simp: buildSpeechRequest_def Let_def)
  have "fst (large_direct w token a c) = [Recognize token request]"
    using assms r
    by (auto simp: large_direct_def Let_def run_defs split: sum.splits)
  with r show ?thesis by blast
qed

lemma large_direct_rejects:
  assumes "valid (validateInput a c)" "audioSizeInMB a > 1000"
  shows "large_direct w token a c =
     ([], Inr \<lparr>status = 413,
           body = JObj [(''error'', JStr ''Audio file too large for direct processing''),
                        (''maxSize'', JStr ''1000MB''),
                        (''currentSize'', currentSize a),
                        (''suggestion'', JStr ''Use large file processing mode'')]\<rparr>)"
  using assms by (simp add: large_direct_def Let_def run_defs)

lemma account_handler_proceeds:
  assumes "authenticated env w token" "\<not> nullish requestBody"
    and "valid (validateInput (get requestBody ''audioData'') (get requestBody ''config''))"
    and "audioSizeInMB (get requestBody ''audioData'') \<le> 15"
  shows "\<exists>request.
           buildSpeechRequest (get requestBody ''audioData'') (get requestBody ''config'') = Inr request
         \<and> fst (account_handler eng env w \<lparr>req_method = ''POST'', req_body = requestBody\<rparr>)
             = [GetClient, GetAccessToken, Recognize token request]"
proof -
  from valid_input_shapes(1) [OF assms(3)]
  obtain request where r:
    "buildSpeechRequest (get requestBody ''audioData'') (get requestBody ''config'') = Inr request"
    by (auto simp: buildSpeechRequest_def Let_def)
  have "fst (account_handler eng env w \<lparr>req_method = ''POST'', req_body = requestBody\<rparr>)
             = [GetClient, GetAccessToken, Recognize token request]"
    using assms r
    by (auto simp: account_handler_def account_handler_try_def authenticated_def Let_def
          run_defs unset_def split: option.splits sum.splits prod.splits)
  with r show ?thesis by blast
qed

lemma account_handler_rejects:
  assumes "authenticated env w token" "\<not> nullish requestBody"
    and "valid (validateInput (get requestBody ''audioData'') (get requestBody ''config''))"
    and "audioSizeInMB (get requestBody ''audioData'') > 15"
  shows "account_handler eng env w \<lparr>req_method = ''POST'', req_body = requestBody\<rparr> =
     ([GetClient, GetAccessToken],
      \<lparr>status = 413,
       body = JObj [(''error'', JStr ''Audio file too large''),
                    (''maxSize'', JStr ''15MB''),
                    (''currentSize'', currentSize (get requestBody ''audioData''))]\<rparr>)"
  using assms
  by (auto simp: account_handler_def account_handler_try_def authenticated_def Let_def
        run_defs unset_def split: option.splits sum.splits prod.splits)

text \<open>
  C5 (as the code has it). Once the credential provider has answered and validation has
  passed, the estimate \<^verbatim>\<open>length * 3 / 4\<close> bytes, taken in megabytes, decides alone. In
  the large file handler's direct path an estimate of at most 1000 sends the built request
  to the recognition provider, and a larger one is answered with status 413, the limit
  \<^verbatim>\<open>1000MB\<close>, the estimate and the suggestion to use the large file mode, after no
  call to the recognition provider. In the service account handler the limit is 15: at
  most 15 proceeds, and a larger estimate is answered with status 413, the limit
  \<^verbatim>\<open>15MB\<close> and the estimate, with no suggestion, again after no call to the
  recognition provider.
\<close>

theorem direct_size_gate:
  assumes "authenticated env w token" "\<not> nullish requestBody"
    and "valid (validateInput (get requestBody ''audioData'') (get requestBody ''config''))"
  shows
   "audioSizeInMB (get requestBody ''audioData'')
      = of_nat (string_length (get requestBody ''audioData'')) * 3 / 4 / (1024 * 1024)
  \<and> (direct_mode requestBody \<and> audioSizeInMB (get requestBody ''audioData'') \<le> 1000 \<longrightarrow>
       (\<exists>request.
          buildSpeechRequest (get requestBody ''audioData'') (get requestBody ''config'') = Inr request
        \<and> fst (large_handler eng env w \<lparr>req_method = ''POST'', req_body = requestBody\<rparr>)
            = [GetClient, GetAccessToken, Recognize token request]))
  \<and> (direct_mode requestBody \<and> audioSizeInMB (get requestBody ''audioData'') > 1000 \<longrightarrow>
       large_handler eng env w \<lparr>req_method = ''POST'', req_body = requestBody\<rparr> =
         ([GetClient, GetAccessToken],
          \<lparr>status = 413,
           body = JObj [(''error'', JStr ''Audio file too large for direct processing''),
                        (''maxSize'', JStr ''1000MB''),
                        (''currentSize'', currentSize (get requestBody ''audioData'')),
                        (''suggestion'', JStr ''Use large file processing mode'')]\<rparr>))
  \<and> (audioSizeInMB (get requestBody ''audioData'') \<le> 15 \<longrightarrow>
       (\<exists>request.
          buildSpeechRequest (get requestBody ''audioData'') (get requestBody ''config'') = Inr request
        \<and> fst (account_handler eng env w \<lparr>req_method = ''POST'', req_body = requestBody\<rparr>)
            = [GetClient, GetAccessToken, Recognize token request]))
  \<and> (audioSizeInMB (get requestBody ''audioData'') > 15 \<longrightarrow>
       account_handler eng env w \<lparr>req_method = ''POST'', req_body = requestBody\<rparr> =
         ([GetClient, GetAccessToken],
          \<lparr>status = 413,
           body = JObj [(''error'', JStr ''Audio file too large''),
                        (''maxSize'', JStr ''15MB''),
                        (''currentSize'', currentSize (get requestBody ''audioData''))]\<rparr>))"
proof (intro conjI impI)
  show "audioSizeInMB (get requestBody ''audioData'')
      = of_nat (string_length (get requestBody ''audioData'')) * 3 / 4 / (1024 * 1024)"
    by (simp add: audioSizeInMB_def)
next
  assume a: "direct_mode requestBody \<and> audioSizeInMB (get requestBody ''audioData'') \<le> 1000"
  from large_direct_proceeds [OF assms(3), of w token] a
  obtain request where r:
    "buildSpeechRequest (get requestBody ''audioData'') (get requestBody ''config'') = Inr request"
    "fst (large_direct w token (get requestBody ''audioData'') (get requestBody ''config''))
       = [Recognize token request]"
    by blast
  have "fst (large_handler eng env w \<lparr>req_method = ''POST'', req_body = requestBody\<rparr>)
            = [GetClient, GetAccessToken, Recognize token request]"
    using r(2) a by (auto simp: large_handler_direct [OF assms(1)] split: prod.splits sum.splits)
  with r(1) show "\<exists>request.
          buildSpeechRequest (get requestBody ''audioData'') (get requestBody ''config'') = Inr request
        \<and> fst (large_handler eng env w \<lparr>req_method = ''POST'', req_body = requestBody\<rparr>)
            = [GetClient, GetAccessToken, Recognize token request]"
    by blast
next
  assume a: "direct_mode requestBody \<and> audioSizeInMB (get requestBody ''audioData'') > 1000"
  then show "large_handler eng env w \<lparr>req_method = ''POST'', req_body = requestBody\<rparr> =
         ([GetClient, GetAccessToken],
          \<lparr>status = 413,
           body = JObj [(''error'', JStr ''Audio file too large for direct processing''),
                        (''maxSize'', JStr ''1000MB''),
                        (''currentSize'', currentSize (get requestBody ''audioData'')),
                        (''suggestion'', JStr ''Use large file processing mode'')]\<rparr>)"
    by (simp add: large_handler_direct [OF assms(1)] large_direct_rejects [OF assms(3)])
next
  assume "audioSizeInMB (get requestBody ''audioData'') \<le> 15"
  then show "\<exists>request.
          buildSpeechRequest (get requestBody ''audioData'') (get requestBody ''config'') = Inr request
        \<and> fst (account_handler eng env w \<lparr>req_method = ''POST'', req_body = requestBody\<rparr>)
            = [GetClient, GetAccessToken, Recognize token request]"
    by (rule account_handler_proceeds [OF assms])
next
  assume "audioSizeInMB (get requestBody ''audioData'') > 15"
  then show "account_handler eng env w \<lparr>req_method = ''POST'', req_body = requestBody\<rparr> =
         ([GetClient, GetAccessToken],
          \<lparr>status = 413,
           body = JObj [(''error'', JStr ''Audio file too large''),
                        (''maxSize'', JStr ''15MB''),
                        (''currentSize'', currentSize (get requestBody ''audioData''))]\<rparr>)"
    by (rule account_handler_rejects [OF assms])
qed

lemma floor_numeral_div_rat: "\<lfloor>(numeral a / numeral b :: rat)\<rfloor> = numeral a div numeral b"
  using floor_divide_of_int_eq [of "numeral a" "numeral b", where ?'a = rat] by simp

lemma direct_body_reads:
  "get (direct_body audio) ''audioData'' = JStr audio"
  "get (direct_body audio) ''config''
     = JObj [(''encoding'', JStr ''LINEAR16''), (''languageCode'', JStr ''en-US'')]"
  "\<not> nullish (direct_body audio)"
  "direct_mode (direct_body audio)"
  by (simp_all add: direct_body_def get_def direct_mode_def)

lemma direct_body_valid:
  "audio \<noteq> [] \<Longrightarrow>
     valid (validateInput (get (direct_body audio) ''audioData'') (get (direct_body audio) ''config''))"
  unfolding direct_body_reads by (simp add: validateInput_def get_def)

lemma payload_sizes:
  "payload_small \<noteq> []" "payload_16MB \<noteq> []" "payload_1200MB \<noteq> []"
  "audioSizeInMB (JStr payload_small) = 3 / 262144"
  "audioSizeInMB (JStr payload_16MB) = 33554433 / 2097152"
  "audioSizeInMB (JStr payload_1200MB) = 1200"
  by (simp_all add: payload_small_def payload_16MB_def payload_1200MB_def audioSizeInMB_def
        string_length_def)

lemma current_sizes:
  "currentSize (JStr payload_16MB) = JStr ''16.00MB''"
  "currentSize (JStr payload_1200MB) = JStr ''1200.00MB''"
  by (simp_all add: currentSize_def payload_sizes toFixed2_def decimal.simps digit_def
        floor_numeral_div_rat)

theorem direct_size_gate_witness:
  "fst (large_handler sample_engine sample_env sample_world
          \<lparr>req_method = ''POST'', req_body = direct_body payload_small\<rparr>)
     = [GetClient, GetAccessToken,
        Recognize ''ya29.token''
          (JObj [(''config'',
                  JObj [(''encoding'', JStr ''LINEAR16''),
                        (''sampleRateHertz'', JNum 16000),
                        (''languageCode'', JStr ''en-US''),
                        (''model'', JStr ''latest_long''),
                        (''useEnhanced'', JBool True),
                        (''enableAutomaticPunctuation'', JBool True),
                        (''enableWordTimeOffsets'', JBool True),
                        (''maxAlternatives'', JNum 1)]),
                 (''audio'', JObj [(''content'', JStr payload_small)])])]
 \<and> large_handler sample_engine sample_env sample_world
       \<lparr>req_method = ''POST'', req_body = direct_body payload_1200MB\<rparr>
     = ([GetClient, GetAccessToken],
        \<lparr>status = 413,
         body = JObj [(''error'', JStr ''Audio file too large for direct processing''),
                      (''maxSize'', JStr ''1000MB''),
                      (''currentSize'', JStr ''1200.00MB''),
                      (''suggestion'', JStr ''Use large file processing mode'')]\<rparr>)"
proof -
  note small = direct_size_gate
    [OF authenticated_sample direct_body_reads(3) direct_body_valid [OF payload_sizes(1)],
     of sample_engine]
  note large = direct_size_gate
    [OF authenticated_sample direct_body_reads(3) direct_body_valid [OF payload_sizes(3)],
     of sample_engine]
  have b: "buildSpeechRequest (JStr payload_small)
             (JObj [(''encoding'', JStr ''LINEAR16''), (''languageCode'', JStr ''en-US'')])
           = Inr (JObj [(''config'',
                  JObj [(''encoding'', JStr ''LINEAR16''),
                        (''sampleRateHertz'', JNum 16000),
                        (''languageCode'', JStr ''en-US''),
                        (''model'', JStr ''latest_long''),
                        (''useEnhanced'', JBool True),
                        (''enableAutomaticPunctuation'', JBool True),
                        (''enableWordTimeOffsets'', JBool True),
                        (''maxAlternatives'', JNum 1)]),
                 (''audio'', JObj [(''content'', JStr payload_small)])])"
    by (simp add: buildSpeechRequest_def buildSpeechRequest_defaults_def spread_def get_def
          or_else_def)
  show ?thesis
    using small large
    by (simp add: direct_body_reads payload_sizes current_sizes b)
qed

text \<open>
  The claim as stated fails in the service account handler: its rejection of an oversize
  payload names the limit and suggests nothing.
\<close>

theorem account_handler_suggestion_counterexample:
  "account_handler sample_engine sample_env sample_world
     \<lparr>req_method = ''POST'', req_body = direct_body payload_16MB\<rparr>
     = ([GetClient, GetAccessToken],
        \<lparr>status = 413,
         body = JObj [(''error'', JStr ''Audio file too large''),
                      (''maxSize'', JStr ''15MB''),
                      (''currentSize'', JStr ''16.00MB'')]\<rparr>)"
  using account_handler_rejects
    [OF authenticated_sample direct_body_reads(3) direct_body_valid [OF payload_sizes(2)],
     of sample_engine]
  by (simp add: direct_body_reads payload_sizes current_sizes)

section \<open>A reply without results\<close>

lemma large_direct_no_results:
  assumes "valid (validateInput a c)" "audioSizeInMB a \<le> 1000"
    and "buildSpeechRequest a c = Inr request" "recognize w token request = Inr reply"
    and "sr_ok reply" "no_results (sr_data reply)"
  shows "large_direct w token a c =
     ([Recognize token request],
      Inr \<lparr>status = 200,
           body = JObj [(''success'', JBool True),
                        (''results'', JArr []),
                        (''message'', JStr ''No speech detected in audio''),
                        (''processingMode'', JStr ''direct'')]\<rparr>)"
  using assms by (simp add: large_direct_def Let_def run_defs)

lemma key_handler_no_results:
  assumes "\<not> nullish requestBody" "truthy (get requestBody ''audioData'')"
    and "truthy (get requestBody ''config'')" "truthy (get requestBody ''apiKey'')"
    and "recognize w (ToString eng (get requestBody ''apiKey''))
           (key_request (get requestBody ''audioData'') (get requestBody ''config'')) = Inr reply"
    and "sr_ok reply" "no_results (sr_data reply)"
  shows "key_handler eng w \<lparr>req_method = ''POST'', req_body = requestBody\<rparr> =
     ([Recognize (ToString eng (get requestBody ''apiKey''))
         (key_request (get requestBody ''audioData'') (get requestBody ''config''))],
      \<lparr>status = 400,
       body = JObj [(''error'', JStr no_text_extracted),
                    (''details'', speech_data_json (sr_data reply))]\<rparr>)"
  using assms by (simp add: key_handler_def key_handler_try_def Let_def run_defs)

text \<open>
  C10. On the direct path of the large file handler, a reply of the provider that is ok
  and has no results (none at all, or an empty list) is answered with status 200,
  \<^verbatim>\<open>success: true\<close>, an empty list of results, the message
  \<^verbatim>\<open>No speech detected in audio\<close> and the processing mode \<^verbatim>\<open>direct\<close>. The API key
  handler answers the same reply with status 400 and an error.
\<close>

theorem zero_results_is_success:
  "(authenticated env w token \<and> direct_mode requestBody
    \<and> valid (validateInput (get requestBody ''audioData'') (get requestBody ''config''))
    \<and> audioSizeInMB (get requestBody ''audioData'') \<le> 1000
    \<and> buildSpeechRequest (get requestBody ''audioData'') (get requestBody ''config'') = Inr request
    \<and> recognize w token request = Inr reply \<and> sr_ok reply \<and> no_results (sr_data reply) \<longrightarrow>
      large_handler eng env w \<lparr>req_method = ''POST'', req_body = requestBody\<rparr> =
        ([GetClient, GetAccessToken, Recognize token request],
         \<lparr>status = 200,
          body = JObj [(''success'', JBool True),
                       (''results'', JArr []),
                       (''message'', JStr ''No speech detected in audio''),
                       (''processingMode'', JStr ''direct'')]\<rparr>))
 \<and> (\<not> nullish requestBody \<and> truthy (get requestBody ''audioData'')
    \<and> truthy (get requestBody ''config'') \<and> truthy (get requestBody ''apiKey'')
    \<and> recognize w (ToString eng (get requestBody ''apiKey''))
          (key_request (get requestBody ''audioData'') (get requestBody ''config'')) = Inr reply
    \<and> sr_ok reply \<and> no_results (sr_data reply) \<longrightarrow>
      key_handler eng w \<lparr>req_method = ''POST'', req_body = requestBody\<rparr> =
        ([Recognize (ToString eng (get requestBody ''apiKey''))
            (key_request (get requestBody ''audioData'') (get requestBody ''config''))],
         \<lparr>status = 400,
          body = JObj [(''error'', JStr no_text_extracted),
                       (''details'', speech_data_json (sr_data reply))]\<rparr>))"
proof (intro conjI impI)
  assume a: "authenticated env w token \<and> direct_mode requestBody
    \<and> valid (validateInput (get requestBody ''audioData'') (get requestBody ''config''))
    \<and> audioSizeInMB (get requestBody ''audioData'') \<le> 1000
    \<and> buildSpeechRequest (get requestBody ''audioData'') (get requestBody ''config'') = Inr request
    \<and> recognize w token request = Inr reply \<and> sr_ok reply \<and> no_results (sr_data reply)"
  then have "large_direct w token (get requestBody ''audioData'') (get requestBody ''config'') =
     ([Recognize token request],
      Inr \<lparr>status = 200,
           body = JObj [(''success'', JBool True),
                        (''results'', JArr []),
                        (''message'', JStr ''No speech detected in audio''),
                        (''processingMode'', JStr ''direct'')]\<rparr>)"
    using large_direct_no_results
      [of "get requestBody ''audioData''" "get requestBody ''config''" request w token reply]
    by blast
  with a show "large_handler eng env w \<lparr>req_method = ''POST'', req_body = requestBody\<rparr> =
        ([GetClient, GetAccessToken, Recognize token request],
         \<lparr>status = 200,
          body = JObj [(''success'', JBool True),
                       (''results'', JArr []),
                       (''message'', JStr ''No speech detected in audio''),
                       (''processingMode'', JStr ''direct'')]\<rparr>)"
    by (simp add: large_handler_direct [of env w token requestBody])
next
  assume "\<not> nullish requestBody \<and> truthy (get requestBody ''audioData'')
    \<and> truthy (get requestBody ''config'') \<and> truthy (get requestBody ''apiKey'')
    \<and> recognize w (ToString eng (get requestBody ''apiKey''))
          (key_request (get requestBody ''audioData'') (get requestBody ''config'')) = Inr reply
    \<and> sr_ok reply \<and> no_results (sr_data reply)"
  then show "key_handler eng w \<lparr>req_method = ''POST'', req_body = requestBody\<rparr> =
        ([Recognize (ToString eng (get requestBody ''apiKey''))
            (key_request (get requestBody ''audioData'') (get requestBody ''config''))],
         \<lparr>status = 400,
          body = JObj [(''error'', JStr no_text_extracted),
                       (''details'', speech_data_json (sr_data reply))]\<rparr>)"
    using key_handler_no_results [where requestBody = requestBody and eng = eng and w = w and reply = reply] by blast
qed

lemma key_body_reads:
  "get key_body ''audioData'' = JStr payload_small"
  "get key_body ''config'' = JObj [(''encoding'', JStr ''MP3''), (''languageCode'', JStr ''ja-JP'')]"
  "get key_body ''apiKey'' = JStr ''AIzaSyExample''"
  "\<not> nullish key_body"
  by (simp_all add: key_body_def get_def)

theorem zero_results_is_success_witness:
  "snd (large_handler sample_engine sample_env sample_world
          \<lparr>req_method = ''POST'', req_body = direct_body payload_small\<rparr>)
     = \<lparr>status = 200,
        body = JObj [(''success'', JBool True),
                     (''results'', JArr []),
                     (''message'', JStr ''No speech detected in audio''),
                     (''processingMode'', JStr ''direct'')]\<rparr>
 \<and> snd (key_handler sample_engine sample_world \<lparr>req_method = ''POST'', req_body = key_body\<rparr>)
     = \<lparr>status = 400, body = JObj [(''error'', JStr no_text_extracted), (''details'', JObj [])]\<rparr>"
proof -
  obtain request where r:
    "buildSpeechRequest (JStr payload_small)
       (JObj [(''encoding'', JStr ''LINEAR16''), (''languageCode'', JStr ''en-US'')]) = Inr request"
    by (simp add: buildSpeechRequest_def Let_def)
  have rec: "recognize sample_world token req = Inr silence" for token req
    by (simp add: sample_world_def)
  have sil: "sr_ok silence" "no_results (sr_data silence)" "speech_data_json (sr_data silence) = JObj []"
    by (simp_all add: silence_def no_results_def speech_data_json_def)
  have small: "audioSizeInMB (JStr payload_small) \<le> 1000" by (simp add: payload_sizes)
  note t1 = zero_results_is_success
    [of sample_env sample_world "''ya29.token''" "direct_body payload_small" request silence
        sample_engine, THEN conjunct1]
  note t2 = zero_results_is_success
    [of sample_env sample_world "''ya29.token''" key_body request silence sample_engine,
     THEN conjunct2]
  have "large_handler sample_engine sample_env sample_world
          \<lparr>req_method = ''POST'', req_body = direct_body payload_small\<rparr> =
        ([GetClient, GetAccessToken, Recognize ''ya29.token'' request],
         \<lparr>status = 200,
          body = JObj [(''success'', JBool True),
                       (''results'', JArr []),
                       (''message'', JStr ''No speech detected in audio''),
                       (''processingMode'', JStr ''direct'')]\<rparr>)"
    using t1 authenticated_sample direct_body_valid [OF payload_sizes(1)] small r rec sil
    by (simp add: direct_body_reads)
  moreover have "snd (key_handler sample_engine sample_world \<lparr>req_method = ''POST'', req_body = key_body\<rparr>)
     = \<lparr>status = 400, body = JObj [(''error'', JStr no_text_extracted), (''details'', JObj [])]\<rparr>"
    using t2 rec sil payload_sizes(1) by (simp add: key_body_reads)
  ultimately show ?thesis by simp
qed

section \<open>The two chunk paths\<close>

lemma foldl_sum: "foldl (\<lambda>sum a. sum + f a) s xs = s + sum_list (map f xs)"
  by (induction xs arbitrary: s) (simp_all add: add.assoc)

lemma top_alternatives_length: "top_alternatives rs = Inr tops \<Longrightarrow> length tops = length rs"
  by (induction rs arbitrary: tops) (auto split: list.splits sum.splits)

lemma top_alternatives_hd:
  "top_alternatives rs = Inr tops \<Longrightarrow> tops = map (\<lambda>r. hd (res_alternatives r)) rs"
  by (induction rs arbitrary: tops) (auto split: list.splits sum.splits)

text \<open>
  The confidence of api/process-audio-chunk.js is the arithmetic mean over the results of
  the first alternative's confidence, a missing one counting as 0; it is 0 when there are
  no results.
\<close>

lemma mean_confidence_is_mean:
  "mean_confidence None = Inr 0"
  "mean_confidence (Some []) = Inr 0"
  "top_alternatives rs = Inr tops \<Longrightarrow> rs \<noteq> [] \<Longrightarrow>
     mean_confidence (Some rs) = Inr (sum_list (map confidence_or_0 tops) / of_nat (length tops))"
  using top_alternatives_length [of rs tops]
  by (simp_all add: mean_confidence_def foldl_sum)

text \<open>And that mean is what the chunk handler reports.\<close>

lemma chunk_handler_confidence:
  assumes "authenticated env w token" "\<not> nullish requestBody"
    and "valid (validateChunkInput eng (get requestBody ''audioData'')
                  (get requestBody ''chunkIndex'') (get requestBody ''config''))"
    and "audioSizeInMB (get requestBody ''audioData'') \<le> 50"
    and "buildChunkSpeechRequest (get requestBody ''audioData'') (get requestBody ''config'')
           = Inr request"
    and "recognize w token request = Inr reply" "sr_ok reply"
    and "chunk_transcript (sd_results (sr_data reply)) = Inr transcript"
    and "mean_confidence (sd_results (sr_data reply)) = Inr m"
  shows "status (snd (chunk_handler eng env w \<lparr>req_method = ''POST'', req_body = requestBody\<rparr>)) = 200
       \<and> get (body (snd (chunk_handler eng env w \<lparr>req_method = ''POST'', req_body = requestBody\<rparr>)))
             ''confidence'' = JNum m"
  using assms
  by (auto simp: chunk_handler_def chunk_handler_try_def authenticated_def Let_def
        run_defs unset_def get_JObj split: option.splits sum.splits prod.splits)

lemma chunk_body_reads:
  "get chunk_body ''audioData'' = JStr payload_small"
  "get chunk_body ''chunkIndex'' = JNum 3"
  "get chunk_body ''startTime'' = JNum 90"
  "get chunk_body ''config''
     = JObj [(''encoding'', JStr ''MP3''), (''languageCode'', JStr ''ja-JP''),
             (''enableDiarization'', JBool True)]"
  "get chunk_body ''processingMode'' = JStr ''chunk_processing''"
  "\<not> nullish chunk_body"
  by (simp_all add: chunk_body_def get_def)

lemma authenticated_two_results: "authenticated sample_env two_results_world ''ya29.token''"
  by (simp add: authenticated_def sample_env_def sample_world_def two_results_world_def unset_def)

lemma two_results_reads:
  "chunk_transcript (Some two_results) = Inr ''hello world''"
  "first_result_confidence (Some two_results) = Inr (JNum (9 / 10))"
  "mean_confidence (Some two_results) = Inr (7 / 10)"
  by (simp_all add: chunk_transcript_def first_result_confidence_def mean_confidence_def
        two_results_def optional_number_def confidence_or_0_def)

lemma large_handler_chunk_mode:
  assumes "authenticated env w token" "\<not> nullish requestBody"
    and "get requestBody ''processingMode'' = JStr ''chunk_processing''"
  shows "large_handler eng env w \<lparr>req_method = ''POST'', req_body = requestBody\<rparr> =
     (case processAudioChunk eng w requestBody token of
        (calls, Inr r) \<Rightarrow> ([GetClient, GetAccessToken] @ calls, r)
      | (calls, Inl e) \<Rightarrow> ([GetClient, GetAccessToken] @ calls, server_error_response eng env w e))"
  using assms
  by (auto simp: large_handler_def large_handler_try_def authenticated_def
        run_defs unset_def split: option.splits sum.splits prod.splits)

lemma processAudioChunk_two_results:
  "processAudioChunk sample_engine two_results_world chunk_body ''ya29.token'' =
     ([Recognize ''ya29.token''
         (JObj [(''config'',
                 JObj [(''encoding'', JStr ''MP3''),
                       (''sampleRateHertz'', JNum 16000),
                       (''languageCode'', JStr ''ja-JP''),
                       (''model'', JStr ''latest_short''),
                       (''enableAutomaticPunctuation'', JBool True)]),
                (''audio'', JObj [(''content'', JStr payload_small)])])],
      Inr \<lparr>status = 200,
           body = JObj [(''success'', JBool True),
                        (''transcript'', JStr ''hello world''),
                        (''chunkIndex'', JNum 3),
                        (''startTime'', JNum 90),
                        (''processingMode'', JStr ''chunk''),
                        (''confidence'', JNum (9 / 10))]\<rparr>)"
  unfolding processAudioChunk_def processAudioChunk_try_def chunk_body_reads
  by (simp add: chunk_body_reads inline_chunk_request_def run_defs two_results_world_def
        sample_world_def two_results_reads get_def or_else_def)

text \<open>
  C6 (the code differs). The chunk mode inside api/speech-to-text.js reports the
  confidence of the first result alone: for the two results above it answers 0.9, where
  the mean is 0.7, which is what api/process-audio-chunk.js answers for the same reply.
\<close>

theorem inline_chunk_confidence_is_first_result:
  "snd (large_handler sample_engine sample_env two_results_world
          \<lparr>req_method = ''POST'', req_body = chunk_body\<rparr>)
     = \<lparr>status = 200,
        body = JObj [(''success'', JBool True),
                     (''transcript'', JStr ''hello world''),
                     (''chunkIndex'', JNum 3),
                     (''startTime'', JNum 90),
                     (''processingMode'', JStr ''chunk''),
                     (''confidence'', JNum (9 / 10))]\<rparr>
 \<and> mean_confidence (Some two_results) = Inr (7 / 10)
 \<and> get (body (snd (chunk_handler sample_engine sample_env two_results_world
                      \<lparr>req_method = ''POST'', req_body = chunk_body\<rparr>))) ''confidence''
     = JNum (7 / 10)"
proof -
  have v: "valid (validateChunkInput sample_engine (get chunk_body ''audioData'')
                  (get chunk_body ''chunkIndex'') (get chunk_body ''config''))"
    unfolding chunk_body_reads
    by (simp add: validateChunkInput_def get_def payload_sizes includes_encoding_def
          supportedEncodings_def)
  obtain request where r:
    "buildChunkSpeechRequest (get chunk_body ''audioData'') (get chunk_body ''config'') = Inr request"
    unfolding chunk_body_reads by (simp add: buildChunkSpeechRequest_def Let_def)
  have rec: "recognize two_results_world ''ya29.token'' request
               = Inr \<lparr>sr_ok = True, sr_status = 200,
                  sr_data = \<lparr>sd_results = Some two_results, sd_totalBilledTime = JStr ''8s'',
                             sd_error = None\<rparr>\<rparr>"
    by (simp add: two_results_world_def)
  have "get (body (snd (chunk_handler sample_engine sample_env two_results_world
                      \<lparr>req_method = ''POST'', req_body = chunk_body\<rparr>))) ''confidence''
     = JNum (7 / 10)"
    using chunk_handler_confidence
      [OF authenticated_two_results chunk_body_reads(6) v _ r rec, of "''hello world''" "7 / 10"]
    by (simp add: chunk_body_reads payload_sizes two_results_reads)
  then show ?thesis
    by (simp add: large_handler_chunk_mode [OF authenticated_two_results chunk_body_reads(6,5)]
          processAudioChunk_two_results two_results_reads)
qed

text \<open>
  The builder of api/process-audio-chunk.js has the chunk profile: the short model, word
  confidence, and diarization only when the caller's \<^verbatim>\<open>enableDiarization\<close> is
  \<^verbatim>\<open>true\<close>, then with at least 1 and at most 2 speakers.
\<close>

lemma buildChunkSpeechRequest_profile:
  assumes "\<not> nullish config"
  shows "\<exists>request. buildChunkSpeechRequest audioData config = Inr request
     \<and> get (payload_config request) ''model'' = JStr ''latest_short''
     \<and> get (payload_config request) ''enableWordConfidence'' = JBool True
     \<and> get (payload_config request) ''diarizationConfig''
         = (if get config ''enableDiarization'' = JBool True
            then JObj [(''enableSpeakerDiarization'', JBool True),
                       (''minSpeakerCount'', JNum 1),
                       (''maxSpeakerCount'', JNum 2)]
            else JUndef)"
  using assms
  by (simp add: buildChunkSpeechRequest_def Let_def payload_config_def get_JObj
        AList.update_conv')

text \<open>
  C8 (the code differs). The chunk mode inside api/speech-to-text.js writes its request in
  place: the short model and punctuation, but no word confidence, and no diarization
  although the caller enabled it. The builder gives the same request all of these.
\<close>

theorem inline_chunk_request_has_no_chunk_profile:
  "fst (large_handler sample_engine sample_env two_results_world
          \<lparr>req_method = ''POST'', req_body = chunk_body\<rparr>)
     = [GetClient, GetAccessToken,
        Recognize ''ya29.token''
          (JObj [(''config'',
                  JObj [(''encoding'', JStr ''MP3''),
                        (''sampleRateHertz'', JNum 16000),
                        (''languageCode'', JStr ''ja-JP''),
                        (''model'', JStr ''latest_short''),
                        (''enableAutomaticPunctuation'', JBool True)]),
                 (''audio'', JObj [(''content'', JStr payload_small)])])]
 \<and> buildChunkSpeechRequest (get chunk_body ''audioData'') (get chunk_body ''config'')
     = Inr (JObj [(''config'',
                   JObj [(''encoding'', JStr ''MP3''),
                         (''sampleRateHertz'', JNum 16000),
                         (''languageCode'', JStr ''ja-JP''),
                         (''model'', JStr ''latest_short''),
                         (''useEnhanced'', JBool True),
                         (''enableAutomaticPunctuation'', JBool True),
                         (''enableWordTimeOffsets'', JBool True),
                         (''enableWordConfidence'', JBool True),
                         (''maxAlternatives'', JNum 1),
                         (''profanityFilter'', JBool False),
                         (''diarizationConfig'',
                          JObj [(''enableSpeakerDiarization'', JBool True),
                                (''minSpeakerCount'', JNum 1),
                                (''maxSpeakerCount'', JNum 2)])]),
                  (''audio'', JObj [(''content'', JStr payload_small)])])"
proof -
  have "buildChunkSpeechRequest (get chunk_body ''audioData'') (get chunk_body ''config'')
     = Inr (JObj [(''config'',
                   JObj [(''encoding'', JStr ''MP3''),
                         (''sampleRateHertz'', JNum 16000),
                         (''languageCode'', JStr ''ja-JP''),
                         (''model'', JStr ''latest_short''),
                         (''useEnhanced'', JBool True),
                         (''enableAutomaticPunctuation'', JBool True),
                         (''enableWordTimeOffsets'', JBool True),
                         (''enableWordConfidence'', JBool True),
                         (''maxAlternatives'', JNum 1),
                         (''profanityFilter'', JBool False),
                         (''diarizationConfig'',
                          JObj [(''enableSpeakerDiarization'', JBool True),
                                (''minSpeakerCount'', JNum 1),
                                (''maxSpeakerCount'', JNum 2)])]),
                  (''audio'', JObj [(''content'', JStr payload_small)])])"
    unfolding chunk_body_reads
    by (simp add: buildChunkSpeechRequest_def get_def or_else_def)
  then show ?thesis
    by (simp add: large_handler_chunk_mode [OF authenticated_two_results chunk_body_reads(6,5)]
          processAudioChunk_two_results)
qed

section \<open>Deletions that fail\<close>











lemma cleanupTempFile_calls:
  "fst (cleanupTempFile env w objectName)
     = [StorageDelete (bucket_or env ''speech-audio-files'') (JStr objectName)]"
  by (simp add: cleanupTempFile_def Let_def)





end
